theory Spec2Isabelle
  imports Complex_Main
begin

section \<open>The Heston model of \<^verbatim>\<open>heston.py\<close>\<close>

text \<open>
  Python floats are modelled as real numbers and Python complex numbers as complex
  numbers: rounding, overflow, infinities and NaN are not part of the model. The one
  place where a statement below is about exact equality of a value that went through
  library functions on doubles is row \<open>0\<close> of the Euler price grid; there the two
  functions are parameters and doubles are modelled (subsection Doubles). Every
  Python exception the code can raise on its way is a value of \<open>py_error\<close>, and a
  function that can raise returns \<open>py_error + 'a\<close>, with \<open>Inl\<close> for the exception.
  The collaborators of the code (the variate generators of \<^verbatim>\<open>scipy.stats\<close>, the
  quadrature, the root finder, the numerical derivative and the Bessel function) are
  parameters of the functions that call them.
\<close>

datatype py_error = ZeroDivisionError | ValueError | TypeError | AttributeError

subsection \<open>The dataclass\<close>

text \<open>
  \<^verbatim>\<open>@dataclass class Heston\<close> with the fields \<^verbatim>\<open>s, v, kappa, theta, sigma, rho\<close> and
  \<^verbatim>\<open>r\<close> (default 0). The class has no \<^verbatim>\<open>__post_init__\<close>, so the generated
  \<^verbatim>\<open>__init__\<close> only stores its arguments.
\<close>

record Heston =
  s :: real
  v :: real
  kappa :: real
  theta :: real
  sigma :: real
  rho :: real
  r :: real

definition Heston_init ::
  "real \<Rightarrow> real \<Rightarrow> real \<Rightarrow> real \<Rightarrow> real \<Rightarrow> real \<Rightarrow> real \<Rightarrow> py_error + Heston" where
  "Heston_init s0 v0 kappa0 theta0 sigma0 rho0 r0 =
     Inr \<lparr>s = s0, v = v0, kappa = kappa0, theta = theta0, sigma = sigma0,
          rho = rho0, r = r0\<rparr>"

text \<open>
  The range constraints as the specification words them (section 3 of the
  specification, not the code): \<open>s > 0\<close>, \<open>v \<ge> 0\<close>, \<open>kappa > 0\<close>, \<open>theta > 0\<close>,
  \<open>sigma > 0\<close> and \<open>-1 < rho < 1\<close>.
\<close>

definition spec_range_ok :: "real \<Rightarrow> real \<Rightarrow> real \<Rightarrow> real \<Rightarrow> real \<Rightarrow> real \<Rightarrow> bool" where
  "spec_range_ok s0 v0 kappa0 theta0 sigma0 rho0 \<longleftrightarrow>
     0 < s0 \<and> 0 \<le> v0 \<and> 0 < kappa0 \<and> 0 < theta0 \<and> 0 < sigma0 \<and> - 1 < rho0 \<and> rho0 < 1"

subsection \<open>Raising operations\<close>

text \<open>
  Sequencing of computations that may raise: the first exception ends the evaluation.
\<close>

definition bind_err :: "py_error + 'a \<Rightarrow> ('a \<Rightarrow> py_error + 'b) \<Rightarrow> py_error + 'b" where
  "bind_err x f = (case x of Inl e \<Rightarrow> Inl e | Inr y \<Rightarrow> f y)"

text \<open>
  Division of Python floats and of Python complex numbers raises
  \<^verbatim>\<open>ZeroDivisionError\<close> on a zero divisor; \<^verbatim>\<open>math.log\<close> raises \<^verbatim>\<open>ValueError\<close>
  outside \<open>x > 0\<close>, \<^verbatim>\<open>cmath.log\<close> at \<open>0\<close>, and \<^verbatim>\<open>math.sqrt\<close> below \<open>0\<close>.
\<close>

definition fdiv :: "real \<Rightarrow> real \<Rightarrow> py_error + real" where
  "fdiv a b = (if b = 0 then Inl ZeroDivisionError else Inr (a / b))"

definition cdiv :: "complex \<Rightarrow> complex \<Rightarrow> py_error + complex" where
  "cdiv a b = (if b = 0 then Inl ZeroDivisionError else Inr (a / b))"

definition math_log :: "real \<Rightarrow> py_error + real" where
  "math_log x = (if x \<le> 0 then Inl ValueError else Inr (ln x))"

definition math_sqrt :: "real \<Rightarrow> py_error + real" where
  "math_sqrt x = (if x < 0 then Inl ValueError else Inr (sqrt x))"

text \<open>
  \<^verbatim>\<open>cmath.log\<close> is the principal branch: the real part is the logarithm of the
  modulus, the imaginary part the argument in \<open>(-\<pi>, \<pi>]\<close>. \<^verbatim>\<open>cmath.sqrt\<close> is the
  principal square root, \<^const>\<open>csqrt\<close>.
\<close>

definition cmath_log :: "complex \<Rightarrow> py_error + complex" where
  "cmath_log z = (if z = 0 then Inl ValueError else Inr (Complex (ln (cmod z)) (Arg z)))"

subsection \<open>The characteristic function of the log-price\<close>

text \<open>
  \<^verbatim>\<open>_heston_cf(s, v, kappa, theta, sigma, rho, u, t)\<close>, in the order the source
  evaluates it: \<open>d\<close>, \<open>g\<close>, \<open>C\<close>, \<open>D\<close>, then the exponential. The function is compiled
  by Numba from the Python text; the model follows the Python text, with the
  interpreter's exceptions for a zero divisor and for a logarithm outside its domain.
\<close>

definition heston_cf ::
  "real \<Rightarrow> real \<Rightarrow> real \<Rightarrow> real \<Rightarrow> real \<Rightarrow> real \<Rightarrow> complex \<Rightarrow> real \<Rightarrow> py_error + complex" where
  "heston_cf s0 v0 kappa0 theta0 sigma0 rho0 u t =
    (let rsu = complex_of_real (rho0 * sigma0) * u * \<i>;
         d = csqrt ((rsu - complex_of_real kappa0)\<^sup>2
                    + complex_of_real (sigma0\<^sup>2) * (u * \<i> + u\<^sup>2))
     in
     bind_err (cdiv (rsu - complex_of_real kappa0 + d) (rsu - complex_of_real kappa0 - d)) (\<lambda>g.
     bind_err (fdiv (kappa0 * theta0) (sigma0\<^sup>2)) (\<lambda>kts.
     bind_err (cdiv (1 - g * exp (- d * complex_of_real t)) (1 - g)) (\<lambda>q.
     bind_err (cmath_log q) (\<lambda>lg.
     let C = complex_of_real kts *
               (complex_of_real t * (complex_of_real kappa0 - rsu - d) - 2 * lg)
     in
     bind_err (cdiv (complex_of_real kappa0 - rsu - d) (complex_of_real (sigma0\<^sup>2))) (\<lambda>kd.
     bind_err (cdiv (1 - exp (- d * complex_of_real t))
                    (1 - g * exp (- d * complex_of_real t))) (\<lambda>e.
     let D = kd * e in
     bind_err (math_log s0) (\<lambda>ls.
     Inr (exp (C + D * complex_of_real v0 + u * complex_of_real ls * \<i>))))))))))"

subsection \<open>The pricing integral\<close>

text \<open>
  \<^verbatim>\<open>_heston_integrand(n, x)\<close> with \<^verbatim>\<open>x = (u, t, k, s, v, kappa, theta, sigma, rho)\<close>:
  the real part of \<open>exp (- \<i> u ln k) / (\<i> u) * (\<phi> (u - \<i>) - k * \<phi> u)\<close>.
\<close>

definition heston_integrand ::
  "real \<Rightarrow> real \<Rightarrow> real \<Rightarrow> real \<Rightarrow> real \<Rightarrow> real \<Rightarrow> real \<Rightarrow> real \<Rightarrow> real \<Rightarrow> py_error + real" where
  "heston_integrand u t k s0 v0 kappa0 theta0 sigma0 rho0 =
     bind_err (math_log k) (\<lambda>lk.
     bind_err (cdiv (exp (- \<i> * complex_of_real u * complex_of_real lk))
                    (\<i> * complex_of_real u)) (\<lambda>w.
     bind_err (heston_cf s0 v0 kappa0 theta0 sigma0 rho0 (complex_of_real u - \<i>) t) (\<lambda>c1.
     bind_err (heston_cf s0 v0 kappa0 theta0 sigma0 rho0 (complex_of_real u) t) (\<lambda>c2.
     Inr (Re (w * (c1 - complex_of_real k * c2)))))))"

text \<open>
  What \<^verbatim>\<open>scipy.integrate.quad\<close> hands back: the value of the integral, the estimate
  of the absolute error, and QUADPACK's status \<open>ier\<close>, which is \<open>0\<close> when the requested
  tolerance was reached. Called as the source calls it (without \<^verbatim>\<open>full_output\<close>)
  \<^verbatim>\<open>quad\<close> returns the pair of the first two; for a status that reports
  non-convergence it issues an \<^verbatim>\<open>IntegrationWarning\<close> and returns the pair all the
  same.
\<close>

record quad_result =
  quad_value :: real
  quad_abserr :: real
  quad_ier :: nat

text \<open>
  \<^verbatim>\<open>_call_price_scalar(self, t, k)\<close>. The quadrature is the parameter \<open>quad\<close>, given
  the integrand and the bounds \<open>0\<close> and \<open>\<infinity>\<close>; the source reads component \<^verbatim>\<open>[0]\<close> of
  its result and nothing else. The body contains no \<^verbatim>\<open>raise\<close>, no test of \<open>t\<close> or
  \<open>k\<close>, and no operation that raises on a real argument.
\<close>

definition call_price_scalar ::
  "((real \<Rightarrow> py_error + real) \<Rightarrow> quad_result) \<Rightarrow> Heston \<Rightarrow> real \<Rightarrow> real \<Rightarrow> py_error + real" where
  "call_price_scalar quad self t k =
     Inr (0.5 * (s self - exp (- r self * t) * k) +
          1 / pi * exp (- r self * t) *
          quad_value (quad (\<lambda>u. heston_integrand u t k (s self) (v self) (kappa self)
                                   (theta self) (sigma self) (rho self))))"

subsection \<open>Euler's scheme\<close>

text \<open>
  A grid is the list of its rows, row \<open>i\<close> the values of all paths at time index \<open>i\<close>.
  The arrays of normal variates are functions of their indices: \<open>Z c i j\<close> is
  \<^verbatim>\<open>Z[c, i, j]\<close>. The loop \<^verbatim>\<open>for i in range(steps)\<close> writes row \<open>i + 1\<close> from row
  \<open>i\<close>; the model appends it.

  Row \<open>0\<close> of the Euler price grid is the initial price sent through \<^verbatim>\<open>math.log\<close>
  and then through \<^verbatim>\<open>np.exp\<close>. Whether that returns the initial price is a question
  about the two library functions on doubles, so they are the parameters \<open>flog\<close> and
  \<open>fexp\<close> of the model of this scheme.
\<close>

definition euler_step ::
  "Heston \<Rightarrow> real \<Rightarrow> (nat \<Rightarrow> nat \<Rightarrow> nat \<Rightarrow> real) \<Rightarrow> nat \<Rightarrow> nat \<Rightarrow> real list \<Rightarrow> real list
     \<Rightarrow> py_error + (real list \<times> real list)" where
  "euler_step self dt Z paths i Vi Xi =
     bind_err (math_sqrt dt) (\<lambda>sqdt.
     let Vn = map (\<lambda>j. let Vplus = max (Vi ! j) 0 in
                    Vi ! j + kappa self * (theta self - Vplus) * dt +
                    sigma self * sqrt Vplus * Z 0 i j * sqdt) [0..<paths]
     in
     bind_err (math_sqrt (1 - (rho self)\<^sup>2)) (\<lambda>sq1r.
     bind_err (math_sqrt dt) (\<lambda>sqdt'.
     let Xn = map (\<lambda>j. let Vplus = max (Vi ! j) 0 in
                    Xi ! j + (r self - 0.5 * Vplus) * dt +
                    sqrt Vplus * (rho self * Z 0 i j + sq1r * Z 1 i j) * sqdt') [0..<paths]
     in Inr (Vn, Xn))))"

primrec euler_loop ::
  "Heston \<Rightarrow> real \<Rightarrow> (nat \<Rightarrow> nat \<Rightarrow> nat \<Rightarrow> real) \<Rightarrow> nat \<Rightarrow> real list \<Rightarrow> real list \<Rightarrow> nat
     \<Rightarrow> py_error + (real list list \<times> real list list)" where
  "euler_loop self dt Z paths V0 X0 0 = Inr ([V0], [X0])"
| "euler_loop self dt Z paths V0 X0 (Suc i) =
     bind_err (euler_loop self dt Z paths V0 X0 i) (\<lambda>(V, X).
     bind_err (euler_step self dt Z paths i (V ! i) (X ! i)) (\<lambda>(Vn, Xn).
     Inr (V @ [Vn], X @ [Xn])))"

text \<open>
  \<^verbatim>\<open>simulate_euler(self, t, steps, paths, return_v)\<close>. The result is the price grid
  and, when \<^verbatim>\<open>return_v\<close> is set, the variance grid.
\<close>

definition simulate_euler ::
  "(real \<Rightarrow> real) \<Rightarrow> (real \<Rightarrow> real) \<Rightarrow> (nat \<Rightarrow> nat \<Rightarrow> nat \<Rightarrow> real) \<Rightarrow> Heston \<Rightarrow> real \<Rightarrow> nat \<Rightarrow> nat
     \<Rightarrow> bool \<Rightarrow> py_error + (real list list \<times> real list list option)" where
  "simulate_euler flog fexp Z self t steps paths return_v =
     bind_err (fdiv t (real steps)) (\<lambda>dt.
     bind_err (if s self \<le> 0 then Inl ValueError else Inr (flog (s self))) (\<lambda>X0.
     bind_err (euler_loop self dt Z paths (replicate paths (v self)) (replicate paths X0) steps)
       (\<lambda>(V, X).
     let S = map (map fexp) X in
     Inr (if return_v then (S, Some V) else (S, None)))))"

subsection \<open>Andersen's QE scheme\<close>

text \<open>
  One entry of the variance update of \<^verbatim>\<open>simulate_qe\<close>, lines 295 to 308 of the source
  read elementwise: \<^verbatim>\<open>np.where(c, x, y)\<close> selects \<open>x\<close> where \<open>c\<close> holds and \<open>y\<close>
  elsewhere. The array operations of NumPy do not raise; where a divisor is zero
  NumPy yields an infinity or a NaN and the model the value HOL gives the quotient,
  so the model says nothing there. No theorem below is about such an entry.
\<close>

definition qe_next_v :: "real \<Rightarrow> real \<Rightarrow> real \<Rightarrow> real \<Rightarrow> real \<Rightarrow> real \<Rightarrow> real \<Rightarrow> real" where
  "qe_next_v theta0 C1 C2 C3 Vij z u =
     (let m = Vij * C1 + theta0 * (1 - C1);
          s_sq = Vij * C2 + C3;
          psi = s_sq / m\<^sup>2;
          b_sq = (if psi < 2 then 2 / psi - 1 + sqrt (max (4 / psi\<^sup>2 - 2 / psi) 0) else 0);
          a = m / (1 + b_sq);
          p = (if psi > 1 then (psi - 1) / (psi + 1) else 0);
          beta = (1 - p) / m
      in if psi < 1.5 then a * (sqrt b_sq + z)\<^sup>2
         else if u < p then 0 else ln ((1 - p) / (1 - u)) / beta)"

definition qe_step ::
  "Heston \<Rightarrow> real \<Rightarrow> real \<Rightarrow> real \<Rightarrow> real \<Rightarrow> real \<Rightarrow> real \<Rightarrow> real \<Rightarrow> real \<Rightarrow>
     (nat \<Rightarrow> nat \<Rightarrow> nat \<Rightarrow> real) \<Rightarrow> (nat \<Rightarrow> nat \<Rightarrow> real) \<Rightarrow> nat \<Rightarrow> nat \<Rightarrow> real list \<Rightarrow> real list
     \<Rightarrow> real list \<times> real list" where
  "qe_step self dt K0 K1 K2 K3 C1 C2 C3 Z U paths i Vi Si =
     (let Vn = map (\<lambda>j. qe_next_v (theta self) C1 C2 C3 (Vi ! j) (Z 0 i j) (U i j)) [0..<paths];
          Sn = map (\<lambda>j. Si ! j * exp (r self * dt + K0 + K1 * (Vi ! j) + K2 * (Vn ! j) +
                                       sqrt (K3 * (Vi ! j + Vn ! j)) * Z 1 i j)) [0..<paths]
      in (Vn, Sn))"

primrec qe_loop ::
  "Heston \<Rightarrow> real \<Rightarrow> real \<Rightarrow> real \<Rightarrow> real \<Rightarrow> real \<Rightarrow> real \<Rightarrow> real \<Rightarrow> real \<Rightarrow>
     (nat \<Rightarrow> nat \<Rightarrow> nat \<Rightarrow> real) \<Rightarrow> (nat \<Rightarrow> nat \<Rightarrow> real) \<Rightarrow> nat \<Rightarrow> real list \<Rightarrow> real list \<Rightarrow> nat
     \<Rightarrow> real list list \<times> real list list" where
  "qe_loop self dt K0 K1 K2 K3 C1 C2 C3 Z U paths V0 S0 0 = ([V0], [S0])"
| "qe_loop self dt K0 K1 K2 K3 C1 C2 C3 Z U paths V0 S0 (Suc i) =
     (case qe_loop self dt K0 K1 K2 K3 C1 C2 C3 Z U paths V0 S0 i of (V, S) \<Rightarrow>
      case qe_step self dt K0 K1 K2 K3 C1 C2 C3 Z U paths i (V ! i) (S ! i) of (Vn, Sn) \<Rightarrow>
      (V @ [Vn], S @ [Sn]))"

text \<open>
  \<^verbatim>\<open>simulate_qe(self, t, steps, paths, return_v)\<close>. The constants \<open>K0\<close> to \<open>K3\<close> and
  \<open>C1\<close> to \<open>C3\<close> are computed on Python floats before the loop, where a zero divisor
  raises.
\<close>

definition simulate_qe ::
  "(nat \<Rightarrow> nat \<Rightarrow> nat \<Rightarrow> real) \<Rightarrow> (nat \<Rightarrow> nat \<Rightarrow> real) \<Rightarrow> Heston \<Rightarrow> real \<Rightarrow> nat \<Rightarrow> nat \<Rightarrow> bool
     \<Rightarrow> py_error + (real list list \<times> real list list option)" where
  "simulate_qe Z U self t steps paths return_v =
     bind_err (fdiv t (real steps)) (\<lambda>dt.
     bind_err (fdiv (- rho self * kappa self * theta self * dt) (sigma self)) (\<lambda>K0.
     bind_err (fdiv (kappa self * rho self) (sigma self)) (\<lambda>krs.
     bind_err (fdiv (rho self) (sigma self)) (\<lambda>rs.
     let K1 = 0.5 * (krs - 0.5) * dt - rs;
         K2 = 0.5 * (krs - 0.5) * dt + rs;
         K3 = 0.5 * (1 - (rho self)\<^sup>2) * dt;
         C1 = exp (- kappa self * dt)
     in
     bind_err (fdiv ((sigma self)\<^sup>2 * C1 * (1 - C1)) (kappa self)) (\<lambda>C2.
     bind_err (fdiv (0.5 * theta self * (sigma self)\<^sup>2 * (1 - C1)\<^sup>2) (kappa self)) (\<lambda>C3.
     case qe_loop self dt K0 K1 K2 K3 C1 C2 C3 Z U paths
            (replicate paths (v self)) (replicate paths (s self)) steps of (V, S) \<Rightarrow>
     Inr (if return_v then (S, Some V) else (S, None))))))))"

subsection \<open>The exact scheme of Broadie and Kaya\<close>

text \<open>
  \<^verbatim>\<open>_bk_cf(self, u, vprev, vnext, dt)\<close>, the conditional characteristic function of
  the integrated variance. The modified Bessel function \<^verbatim>\<open>scipy.special.iv\<close> is the
  parameter \<open>iv\<close>. The divisions up to the Bessel quotient are on Python scalars and
  raise on a zero divisor; the Bessel quotient is on NumPy scalars and does not.
\<close>

definition bk_cf ::
  "(real \<Rightarrow> complex \<Rightarrow> complex) \<Rightarrow> Heston \<Rightarrow> real \<Rightarrow> real \<Rightarrow> real \<Rightarrow> real \<Rightarrow> py_error + complex" where
  "bk_cf iv self u vprev vnext dt =
    (let g = csqrt (complex_of_real ((kappa self)\<^sup>2)
                    - 2 * complex_of_real ((sigma self)\<^sup>2) * complex_of_real u * \<i>)
     in
     bind_err (fdiv (4 * theta self * kappa self) ((sigma self)\<^sup>2)) (\<lambda>df.
     let c1 = exp (- kappa self * dt);
         c2 = exp (- g * complex_of_real dt)
     in
     bind_err (cdiv (g * csqrt (c2 / complex_of_real c1) * complex_of_real (1 - c1))
                    (complex_of_real (kappa self) * (1 - c2))) (\<lambda>A.
     bind_err (fdiv (kappa self * (1 + c1)) (1 - c1)) (\<lambda>B1.
     bind_err (cdiv (g * (1 + c2)) (1 - c2)) (\<lambda>B2.
     let E = exp (complex_of_real ((vprev + vnext) / (sigma self)\<^sup>2)
                  * (complex_of_real B1 - B2))
     in
     bind_err (cdiv (csqrt (complex_of_real (vprev * vnext) * c2) * 4 * g)
                    (complex_of_real ((sigma self)\<^sup>2) * (1 - c2))) (\<lambda>a1.
     bind_err (math_sqrt (vprev * vnext * c1)) (\<lambda>sq.
     bind_err (fdiv (sq * 4 * kappa self) ((sigma self)\<^sup>2 * (1 - c1))) (\<lambda>a2.
     Inr (A * E * iv (0.5 * df - 1) a1 / iv (0.5 * df - 1) (complex_of_real a2))))))))))"

text \<open>
  The loop condition of \<^verbatim>\<open>_bk_prob\<close> calls \<^verbatim>\<open>cmath.abs\<close>. The module \<^verbatim>\<open>cmath\<close>
  of the standard library defines no name \<^verbatim>\<open>abs\<close> (the modulus of a complex number is
  the builtin \<^verbatim>\<open>abs\<close>), so evaluating the expression \<^verbatim>\<open>cmath.abs\<close> raises
  \<^verbatim>\<open>AttributeError\<close>. Python evaluates the callee before the arguments of a call:
  the lookup fails before \<^verbatim>\<open>_bk_cf\<close> is called.
\<close>

definition cmath_abs :: "py_error + (complex \<Rightarrow> real)" where
  "cmath_abs = Inl AttributeError"

text \<open>
  The \<^verbatim>\<open>while\<close> loop of \<^verbatim>\<open>_bk_prob\<close>, from the state \<open>(j, prob)\<close>:
  \<^verbatim>\<open>while (j < 1000 and cmath.abs(cf(h*j))/j >= math.pi*truncation_error/2)\<close>
  with the body \<^verbatim>\<open>prob += 2/math.pi * math.sin(h*j*x)/j * cf(h*j).real; j += 1\<close>.
\<close>

function bk_loop ::
  "(real \<Rightarrow> complex \<Rightarrow> complex) \<Rightarrow> Heston \<Rightarrow> real \<Rightarrow> real \<Rightarrow> real \<Rightarrow> real \<Rightarrow> real \<Rightarrow> real
     \<Rightarrow> nat \<Rightarrow> real \<Rightarrow> py_error + real" where
  "bk_loop iv self h x vprev vnext dt truncation_error j prob =
     (if j < 1000 then
        (case cmath_abs of
           Inl e \<Rightarrow> Inl e
         | Inr absf \<Rightarrow>
            (case bk_cf iv self (h * real j) vprev vnext dt of
               Inl e \<Rightarrow> Inl e
             | Inr c \<Rightarrow>
                if absf c / real j \<ge> pi * truncation_error / 2 then
                  (case bk_cf iv self (h * real j) vprev vnext dt of
                     Inl e \<Rightarrow> Inl e
                   | Inr c' \<Rightarrow>
                      bk_loop iv self h x vprev vnext dt truncation_error (Suc j)
                        (prob + 2 / pi * sin (h * real j * x) / real j * Re c'))
                else Inr prob))
      else Inr prob)"
  by pat_completeness auto
termination
  by (relation "measure (\<lambda>(iv, self, h, x, vprev, vnext, dt, te, j, prob). 1000 - j)") auto

text \<open>
  \<^verbatim>\<open>_bk_prob(self, x, vprev, vnext, dt, truncation_error, small_tail_stddev)\<close>.
  \<^verbatim>\<open>scipy.misc.derivative(func, x0, dx, n)\<close> is the parameter \<open>deriv\<close>. The quotient
  \<^verbatim>\<open>math.pi/(m + s*small_tail_stddev)\<close> has a NumPy divisor and does not raise.
\<close>

definition bk_prob ::
  "(real \<Rightarrow> complex \<Rightarrow> complex) \<Rightarrow>
   ((real \<Rightarrow> py_error + complex) \<Rightarrow> real \<Rightarrow> real \<Rightarrow> nat \<Rightarrow> py_error + complex) \<Rightarrow>
   Heston \<Rightarrow> real \<Rightarrow> real \<Rightarrow> real \<Rightarrow> real \<Rightarrow> real \<Rightarrow> real \<Rightarrow> py_error + real" where
  "bk_prob iv deriv self x vprev vnext dt truncation_error small_tail_stddev =
     (if x \<le> 0 then Inr 0
      else
        bind_err (deriv (\<lambda>u. bk_cf iv self u vprev vnext dt) 0 0.001 1) (\<lambda>d1.
        let m = Re (d1 / \<i>) in
        bind_err (deriv (\<lambda>u. bk_cf iv self u vprev vnext dt) 0 0.001 2) (\<lambda>d2.
        bind_err (math_sqrt (max 0 (- Re d2))) (\<lambda>sd.
        let h = pi / (m + sd * small_tail_stddev);
            prob = h * x / pi
        in
        bind_err (bk_loop iv self h x vprev vnext dt truncation_error 1 prob) (\<lambda>prob'.
        Inr (max (min prob' 1) 0))))))"

text \<open>
  The inner loop of \<^verbatim>\<open>simulate_exact\<close> for one path: the integrated variance is the
  bound \<^verbatim>\<open>max_int_v\<close> when the distribution function there does not exceed the
  target \<open>u\<close>, and otherwise what \<^verbatim>\<open>scipy.optimize.brentq\<close> (the parameter
  \<open>brentq\<close>) returns for \<open>F - u\<close> on \<open>[0, max_int_v]\<close>.
\<close>

definition exact_int_v ::
  "(real \<Rightarrow> complex \<Rightarrow> complex) \<Rightarrow>
   ((real \<Rightarrow> py_error + complex) \<Rightarrow> real \<Rightarrow> real \<Rightarrow> nat \<Rightarrow> py_error + complex) \<Rightarrow>
   ((real \<Rightarrow> py_error + real) \<Rightarrow> real \<Rightarrow> real \<Rightarrow> py_error + real) \<Rightarrow>
   Heston \<Rightarrow> real \<Rightarrow> real \<Rightarrow> real \<Rightarrow> real \<Rightarrow> real \<Rightarrow> real \<Rightarrow> py_error + real" where
  "exact_int_v iv deriv brentq self dt truncation_error small_tail_stddev Vij Vnj u =
     (let max_int_v = (Vij + Vnj) * dt * 10 in
      bind_err (bk_prob iv deriv self max_int_v Vij Vnj dt truncation_error small_tail_stddev)
        (\<lambda>F.
      if F \<le> u then Inr max_int_v
      else brentq (\<lambda>x. bind_err (bk_prob iv deriv self x Vij Vnj dt truncation_error
                                    small_tail_stddev) (\<lambda>y. Inr (y - u)))
             0 max_int_v))"

text \<open>A \<^verbatim>\<open>for\<close> loop filling an array entry by entry: the first exception ends it.\<close>

primrec map_err :: "('a \<Rightarrow> py_error + 'b) \<Rightarrow> 'a list \<Rightarrow> py_error + 'b list" where
  "map_err f [] = Inr []"
| "map_err f (x # xs) =
     bind_err (f x) (\<lambda>y. bind_err (map_err f xs) (\<lambda>ys. Inr (y # ys)))"

text \<open>
  \<^verbatim>\<open>math.sqrt\<close> and \<^verbatim>\<open>math.exp\<close> applied to a NumPy array: the array is converted
  to a Python scalar, which raises \<^verbatim>\<open>TypeError\<close> unless it has exactly one element.
\<close>

definition math_sqrt_array :: "real list \<Rightarrow> py_error + real" where
  "math_sqrt_array xs = (case xs of [x] \<Rightarrow> math_sqrt x | _ \<Rightarrow> Inl TypeError)"

definition math_exp_array :: "real list \<Rightarrow> py_error + real" where
  "math_exp_array xs = (case xs of [x] \<Rightarrow> Inr (exp x) | _ \<Rightarrow> Inl TypeError)"

text \<open>
  Line 426: the uniform variates are multiplied by \<open>0.9999\<close> once, when the array \<open>U\<close>
  is built; every later use reads \<open>U\<close>.
\<close>

definition exact_U :: "(nat \<Rightarrow> nat \<Rightarrow> real) \<Rightarrow> nat \<Rightarrow> nat \<Rightarrow> real" where
  "exact_U uniform_rvs i j = uniform_rvs i j * 0.9999"

text \<open>
  One pass of the outer loop of \<^verbatim>\<open>simulate_exact\<close>, in its three parts. The first
  (lines 434 to 436) is the assignment of the next variance row: the constant
  \<^verbatim>\<open>sigma**2*(1-exp(-kappa*dt))/(4*kappa)\<close> times the noncentral chi-squared draws.
  The parameter \<open>ncx2_rvs\<close> is the generator: \<open>ncx2_rvs i j df nc\<close> is the draw of step
  \<open>i\<close> for path \<open>j\<close>.
\<close>

definition exact_next_V ::
  "(nat \<Rightarrow> nat \<Rightarrow> real \<Rightarrow> real \<Rightarrow> real) \<Rightarrow> Heston \<Rightarrow> real \<Rightarrow> real \<Rightarrow> real \<Rightarrow> nat \<Rightarrow> nat \<Rightarrow> real list
     \<Rightarrow> py_error + real list" where
  "exact_next_V ncx2_rvs self dt df nc paths i Vi =
     bind_err (fdiv ((sigma self)\<^sup>2 * (1 - exp (- kappa self * dt))) (4 * kappa self)) (\<lambda>c.
     Inr (map (\<lambda>j. c * ncx2_rvs i j df (nc * (Vi ! j))) [0..<paths]))"

text \<open>
  The third part (lines 452 to 459): the two stochastic integrals and the next price
  row, from the integrated variances \<open>int_v\<close> the inner loop has filled in.
\<close>

definition exact_next_S ::
  "(nat \<Rightarrow> nat \<Rightarrow> real) \<Rightarrow> Heston \<Rightarrow> real \<Rightarrow> nat \<Rightarrow> nat \<Rightarrow> real list \<Rightarrow> real list \<Rightarrow> real list
     \<Rightarrow> real list \<Rightarrow> py_error + real list" where
  "exact_next_S Z self dt paths i Vi Vn int_v Si =
     (let int_w1 = map (\<lambda>j. (Vn ! j - Vi ! j - kappa self * theta self * dt +
                             kappa self * (int_v ! j)) / sigma self) [0..<paths]
      in
      bind_err (math_sqrt_array int_v) (\<lambda>sq.
      let int_w2 = map (\<lambda>j. Z i j * sq) [0..<paths] in
      bind_err (math_sqrt (1 - (rho self)\<^sup>2)) (\<lambda>sq1r.
      bind_err (math_exp_array
                  (map (\<lambda>j. r self * dt - 0.5 * (int_v ! j) + rho self * (int_w1 ! j) +
                             sq1r * (int_w2 ! j)) [0..<paths])) (\<lambda>e.
      Inr (map (\<lambda>j. Si ! j * e) [0..<paths])))))"

text \<open>
  The pass: the next variance row, then the inner loop over the paths (lines 437 to
  451), which hands \<open>U i j\<close> to the inversion for path \<open>j\<close>, then the next price row.
\<close>

definition exact_step ::
  "(real \<Rightarrow> complex \<Rightarrow> complex) \<Rightarrow>
   ((real \<Rightarrow> py_error + complex) \<Rightarrow> real \<Rightarrow> real \<Rightarrow> nat \<Rightarrow> py_error + complex) \<Rightarrow>
   ((real \<Rightarrow> py_error + real) \<Rightarrow> real \<Rightarrow> real \<Rightarrow> py_error + real) \<Rightarrow>
   (nat \<Rightarrow> nat \<Rightarrow> real \<Rightarrow> real \<Rightarrow> real) \<Rightarrow> (nat \<Rightarrow> nat \<Rightarrow> real) \<Rightarrow> (nat \<Rightarrow> nat \<Rightarrow> real) \<Rightarrow>
   Heston \<Rightarrow> real \<Rightarrow> real \<Rightarrow> real \<Rightarrow> real \<Rightarrow> real \<Rightarrow> nat \<Rightarrow> nat \<Rightarrow> real list \<Rightarrow> real list
     \<Rightarrow> py_error + (real list \<times> real list)" where
  "exact_step iv deriv brentq ncx2_rvs Z U self dt df nc truncation_error small_tail_stddev
       paths i Vi Si =
     bind_err (exact_next_V ncx2_rvs self dt df nc paths i Vi) (\<lambda>Vn.
     bind_err (map_err (\<lambda>j. exact_int_v iv deriv brentq self dt truncation_error
                               small_tail_stddev (Vi ! j) (Vn ! j) (U i j)) [0..<paths])
       (\<lambda>int_v.
     bind_err (exact_next_S Z self dt paths i Vi Vn int_v Si) (\<lambda>Sn.
     Inr (Vn, Sn))))"

primrec exact_loop ::
  "(real \<Rightarrow> complex \<Rightarrow> complex) \<Rightarrow>
   ((real \<Rightarrow> py_error + complex) \<Rightarrow> real \<Rightarrow> real \<Rightarrow> nat \<Rightarrow> py_error + complex) \<Rightarrow>
   ((real \<Rightarrow> py_error + real) \<Rightarrow> real \<Rightarrow> real \<Rightarrow> py_error + real) \<Rightarrow>
   (nat \<Rightarrow> nat \<Rightarrow> real \<Rightarrow> real \<Rightarrow> real) \<Rightarrow> (nat \<Rightarrow> nat \<Rightarrow> real) \<Rightarrow> (nat \<Rightarrow> nat \<Rightarrow> real) \<Rightarrow>
   Heston \<Rightarrow> real \<Rightarrow> real \<Rightarrow> real \<Rightarrow> real \<Rightarrow> real \<Rightarrow> nat \<Rightarrow> real list \<Rightarrow> real list \<Rightarrow> nat
     \<Rightarrow> py_error + (real list list \<times> real list list)" where
  "exact_loop iv deriv brentq ncx2_rvs Z U self dt df nc truncation_error small_tail_stddev
       paths V0 S0 0 = Inr ([V0], [S0])"
| "exact_loop iv deriv brentq ncx2_rvs Z U self dt df nc truncation_error small_tail_stddev
       paths V0 S0 (Suc i) =
     bind_err (exact_loop iv deriv brentq ncx2_rvs Z U self dt df nc truncation_error
                 small_tail_stddev paths V0 S0 i) (\<lambda>(V, S).
     bind_err (exact_step iv deriv brentq ncx2_rvs Z U self dt df nc truncation_error
                 small_tail_stddev paths i (V ! i) (S ! i)) (\<lambda>(Vn, Sn).
     Inr (V @ [Vn], S @ [Sn])))"

text \<open>
  \<^verbatim>\<open>simulate_exact(self, t, steps, paths, truncation_error, small_tail_stddev,
  return_v)\<close>; \<open>uniform_rvs\<close> is the array \<^verbatim>\<open>st.uniform.rvs(size=(steps, paths))\<close>.
\<close>

definition simulate_exact ::
  "(real \<Rightarrow> complex \<Rightarrow> complex) \<Rightarrow>
   ((real \<Rightarrow> py_error + complex) \<Rightarrow> real \<Rightarrow> real \<Rightarrow> nat \<Rightarrow> py_error + complex) \<Rightarrow>
   ((real \<Rightarrow> py_error + real) \<Rightarrow> real \<Rightarrow> real \<Rightarrow> py_error + real) \<Rightarrow>
   (nat \<Rightarrow> nat \<Rightarrow> real \<Rightarrow> real \<Rightarrow> real) \<Rightarrow> (nat \<Rightarrow> nat \<Rightarrow> real) \<Rightarrow> (nat \<Rightarrow> nat \<Rightarrow> real) \<Rightarrow>
   Heston \<Rightarrow> real \<Rightarrow> nat \<Rightarrow> nat \<Rightarrow> real \<Rightarrow> real \<Rightarrow> bool
     \<Rightarrow> py_error + (real list list \<times> real list list option)" where
  "simulate_exact iv deriv brentq ncx2_rvs Z uniform_rvs self t steps paths
       truncation_error small_tail_stddev return_v =
     bind_err (fdiv t (real steps)) (\<lambda>dt.
     bind_err (fdiv (4 * theta self * kappa self) ((sigma self)\<^sup>2)) (\<lambda>df.
     bind_err (fdiv (4 * kappa self * exp (- kappa self * dt))
                    ((sigma self)\<^sup>2 * (1 - exp (- kappa self * dt)))) (\<lambda>nc.
     bind_err (exact_loop iv deriv brentq ncx2_rvs Z (exact_U uniform_rvs) self dt df nc
                 truncation_error small_tail_stddev paths
                 (replicate paths (v self)) (replicate paths (s self)) steps) (\<lambda>(V, S).
     Inr (if return_v then (S, Some V) else (S, None))))))"

subsection \<open>The QE update as the specification words it\<close>

text \<open>
  Section 4.4 of the specification: with \<open>m\<close>, \<open>s\<^sup>2\<close> and \<open>\<psi> = s\<^sup>2 / m\<^sup>2\<close>, the
  quadratic branch is taken when \<open>\<psi> \<le> 1.5\<close> and the exponential branch when
  \<open>\<psi> > 1.5\<close>. The specification gives no formulas for \<open>a\<close>, \<open>b\<^sup>2\<close>, \<open>p\<close> and \<open>\<beta>\<close>;
  they are the ones of the code. This definition is the specification's, for
  comparison with \<open>qe_next_v\<close>; no model of the code uses it.
\<close>

definition spec_qe_next_v :: "real \<Rightarrow> real \<Rightarrow> real \<Rightarrow> real \<Rightarrow> real \<Rightarrow> real \<Rightarrow> real \<Rightarrow> real" where
  "spec_qe_next_v theta0 C1 C2 C3 Vij z u =
     (let m = Vij * C1 + theta0 * (1 - C1);
          s_sq = Vij * C2 + C3;
          psi = s_sq / m\<^sup>2;
          b_sq = (if psi < 2 then 2 / psi - 1 + sqrt (max (4 / psi\<^sup>2 - 2 / psi) 0) else 0);
          a = m / (1 + b_sq);
          p = (if psi > 1 then (psi - 1) / (psi + 1) else 0);
          beta = (1 - p) / m
      in if psi \<le> 1.5 then a * (sqrt b_sq + z)\<^sup>2
         else if u < p then 0 else ln ((1 - p) / (1 - u)) / beta)"

subsection \<open>Doubles\<close>

text \<open>
  The finite values of the IEEE 754 binary64 format, as real numbers: an integer
  significand below \<open>2\<^sup>5\<^sup>3\<close> in absolute value, scaled by a power of two between
  \<open>2\<^sup>-\<^sup>1\<^sup>0\<^sup>7\<^sup>4\<close> and \<open>2\<^sup>9\<^sup>7\<^sup>1\<close>.
\<close>

definition is_double :: "real \<Rightarrow> bool" where
  "is_double x \<longleftrightarrow>
     (\<exists>(m::int) (k::nat). \<bar>m\<bar> < 2 ^ 53 \<and>
        ((k \<le> 971 \<and> x = real_of_int m * 2 ^ k) \<or> (k \<le> 1074 \<and> x = real_of_int m / 2 ^ k)))"

text \<open>
  What is assumed of \<^verbatim>\<open>math.log\<close> and \<^verbatim>\<open>np.exp\<close> on a platform with doubles: the
  logarithm returns a double, with nothing assumed about its accuracy, and the
  exponential is within the relative error \<open>2\<^sup>-\<^sup>5\<^sup>2\<close> of the true value (at \<open>100\<close> that
  is about 1.6 units in the last place).
\<close>

definition double_libm :: "(real \<Rightarrow> real) \<Rightarrow> (real \<Rightarrow> real) \<Rightarrow> bool" where
  "double_libm flog fexp \<longleftrightarrow>
     (\<forall>x. is_double (flog x)) \<and> (\<forall>y. \<bar>fexp y - exp y\<bar> \<le> exp y / 2 ^ 52)"

text \<open>
  The Taylor polynomial of the exponential of degree below \<open>n\<close> with the coefficient
  \<open>c\<close> on the term of degree \<open>n\<close>; it bounds the exponential from below with
  \<open>c = 0\<close> and, on \<open>[0, 1]\<close>, from above with \<open>c = 3\<close>.
\<close>

definition taylor_exp :: "real \<Rightarrow> nat \<Rightarrow> real \<Rightarrow> real" where
  "taylor_exp x n c = (\<Sum>m<n. x ^ m / fact m) + c * x ^ n / fact n"

section \<open>Construction\<close>

text \<open>
  C1, as the specification states it: constructing a model fails with a validation
  error whenever a range constraint is violated. The code does not: a negative initial
  price is out of range and the constructor returns an instance holding it.
\<close>

theorem Heston_init_no_validation_counterexample:
  "\<not> spec_range_ok (- 1) 0 1 1 1 0 \<and>
   Heston_init (- 1) 0 1 1 1 0 0 =
     Inr \<lparr>s = - 1, v = 0, kappa = 1, theta = 1, sigma = 1, rho = 0, r = 0\<rparr>"
  by (simp add: spec_range_ok_def Heston_init_def)

text \<open>
  C1, amended: construction never fails and never clamps. For every argument tuple,
  in range or not, the constructor returns an instance whose seven fields are the
  seven arguments, unchanged.
\<close>

theorem Heston_init_stores_arguments:
  "\<exists>h. Heston_init s0 v0 kappa0 theta0 sigma0 rho0 r0 = Inr h \<and>
       s h = s0 \<and> v h = v0 \<and> kappa h = kappa0 \<and> theta h = theta0 \<and>
       sigma h = sigma0 \<and> rho h = rho0 \<and> r h = r0"
  by (simp add: Heston_init_def)

section \<open>The characteristic function at frequency zero\<close>

lemma Arg_one_aux: "Arg 1 = 0"
  by (rule cis_Arg_unique) simp_all

lemma cmath_log_one: "cmath_log 1 = Inr 0"
  by (simp add: cmath_log_def Arg_one_aux complex_eq_iff)

lemma csqrt_neg_real_sq: "0 < k \<Longrightarrow> csqrt ((- complex_of_real k)\<^sup>2) = complex_of_real k"
  using csqrt_square [of "complex_of_real k"] by simp

text \<open>
  C8: for all valid model parameters and every time \<open>t \<ge> 0\<close>, the characteristic
  function of the log-price at frequency \<open>u = 0\<close> is exactly \<open>1\<close>: no operation on the
  way raises, \<open>d\<close> is \<open>kappa\<close>, \<open>g\<close>, \<open>C\<close> and \<open>D\<close> are \<open>0\<close>.
\<close>

theorem heston_cf_normalised:
  assumes "spec_range_ok s0 v0 kappa0 theta0 sigma0 rho0" and "0 \<le> t"
  shows "heston_cf s0 v0 kappa0 theta0 sigma0 rho0 0 t = Inr 1"
  using assms
  by (simp add: spec_range_ok_def heston_cf_def csqrt_neg_real_sq bind_err_def cdiv_def
      fdiv_def cmath_log_one math_log_def)

theorem heston_cf_normalised_witness:
  "spec_range_ok 100 0.04 2 0.04 0.3 (- 0.7) \<and> (0::real) \<le> 1 \<and>
   heston_cf 100 0.04 2 0.04 0.3 (- 0.7) 0 1 = Inr 1"
  using heston_cf_normalised [of 100 "0.04" 2 "0.04" "0.3" "- 0.7" 1]
  by (simp add: spec_range_ok_def)

section \<open>The pricing operation\<close>

text \<open>
  C4, as the specification states it: when the quadrature does not converge, the
  pricing operation surfaces a computation error with the error estimate. The code
  does not: for a quadrature that reports non-convergence (status \<open>1\<close>, error estimate
  \<open>1\<close>) and the value \<open>7\<close>, the operation returns the price built from \<open>7\<close>.
\<close>

theorem call_price_scalar_unconverged_counterexample:
  "quad_ier \<lparr>quad_value = 7, quad_abserr = 1, quad_ier = 1\<rparr> \<noteq> 0 \<and>
   call_price_scalar (\<lambda>f. \<lparr>quad_value = 7, quad_abserr = 1, quad_ier = 1\<rparr>)
     \<lparr>s = 100, v = 0.04, kappa = 2, theta = 0.04, sigma = 0.3, rho = - 0.7, r = 0\<rparr> 1 100
   = Inr (7 / pi)"
  by (simp add: call_price_scalar_def)

text \<open>
  C4, amended: for every expiration \<open>t\<close>, strike \<open>k\<close> and outcome of the quadrature,
  converged or not, the pricing operation returns
  \<open>0.5 (s - e\<^sup>-\<^sup>r\<^sup>t k) + e\<^sup>-\<^sup>r\<^sup>t / \<pi> * I\<close> with \<open>I\<close> the value component of the quadrature's
  result. The error estimate and the status are never read: replacing them by
  anything leaves the result unchanged, and no error is raised.
\<close>

theorem call_price_scalar_ignores_quadrature_status:
  "call_price_scalar (\<lambda>f. (quad f)\<lparr>quad_abserr := e, quad_ier := n\<rparr>) self t k
     = call_price_scalar quad self t k \<and>
   call_price_scalar quad self t k =
     Inr (0.5 * (s self - exp (- r self * t) * k) +
          exp (- r self * t) / pi *
          quad_value (quad (\<lambda>u. heston_integrand u t k (s self) (v self) (kappa self)
                                   (theta self) (sigma self) (rho self))))"
  by (simp add: call_price_scalar_def)

section \<open>Degenerate inputs\<close>

text \<open>
  C9, as the specification states it: \<open>t = 0\<close> passed to the pricing operation fails
  with a validation error. The code does not: at \<open>t = 0\<close> and strike \<open>100\<close> the operation
  returns the price built from whatever the quadrature returned.
\<close>

theorem call_price_scalar_zero_expiry_counterexample:
  "call_price_scalar (\<lambda>f. \<lparr>quad_value = 7, quad_abserr = 0, quad_ier = 0\<rparr>)
     \<lparr>s = 100, v = 0.04, kappa = 2, theta = 0.04, sigma = 0.3, rho = - 0.7, r = 0\<rparr> 0 100
   = Inr (7 / pi)"
  by (simp add: call_price_scalar_def)

text \<open>
  C9, amended: \<open>steps = 0\<close> passed to any of the three simulate operations fails with
  the \<^verbatim>\<open>ZeroDivisionError\<close> of \<^verbatim>\<open>dt = t/steps\<close>, before any grid is built; it is not
  a validation error. The pricing operation checks neither \<open>t\<close> nor \<open>k\<close>: for every
  \<open>t\<close> and \<open>k\<close>, \<open>t = 0\<close> and \<open>k \<le> 0\<close> included, it returns a value and raises nothing.
\<close>

theorem degenerate_inputs:
  "simulate_euler flog fexp Z self t 0 paths return_v = Inl ZeroDivisionError \<and>
   simulate_qe Z U self t 0 paths return_v = Inl ZeroDivisionError \<and>
   simulate_exact iv deriv brentq ncx2_rvs Z' uniform_rvs self t 0 paths
       truncation_error small_tail_stddev return_v = Inl ZeroDivisionError \<and>
   (\<exists>p. call_price_scalar quad self t k = Inr p)"
  by (simp add: simulate_euler_def simulate_qe_def simulate_exact_def fdiv_def bind_err_def
      call_price_scalar_def)

section \<open>The QE variance update\<close>

lemma sqrt_four_ninths: "sqrt (4 / 9) = 2 / 3"
  by (rule real_sqrt_unique) (simp_all add: power2_eq_square)

lemma max_drop: "max (4 / p\<^sup>2 - 2 / p) 0 = 4 / p\<^sup>2 - 2 / p" if "p < 2" for p :: real
proof (cases "p = 0")
  case True
  then show ?thesis by simp
next
  case False
  have "4 / p\<^sup>2 - 2 / p = (4 - 2 * p) / p\<^sup>2"
    using False by (simp add: field_simps power2_eq_square)
  moreover have "0 \<le> (4 - 2 * p) / p\<^sup>2"
    using that by (intro divide_nonneg_nonneg) simp_all
  ultimately show ?thesis by simp
qed

text \<open>
  C5, as the specification states it: the quadratic branch is taken when \<open>\<psi> \<le> 1.5\<close>.
  The code tests \<open>\<psi> < 1.5\<close>. With \<open>theta = 1\<close>, \<open>C1 = 1/2\<close>, \<open>C2 = 3/4\<close>, \<open>C3 = 3/8\<close>
  (the constants of \<open>kappa = 3\<close>, \<open>sigma = 3\<close>, \<open>dt = ln 2 / 3\<close>) and \<open>V[i] = 0\<close> one has
  \<open>m = 1/2\<close>, \<open>s\<^sup>2 = 3/8\<close> and \<open>\<psi> = 1.5\<close> exactly; with \<open>Z = 0\<close> and \<open>U = 0.1 < p = 0.2\<close>
  the code returns the atom \<open>0\<close> of the exponential branch, where the quadratic branch
  gives \<open>a (\<surd>b\<^sup>2 + Z)\<^sup>2 = 1/4\<close>.
\<close>

theorem qe_threshold_counterexample:
  "qe_next_v 1 (1/2) (3/4) (3/8) 0 0 (1/10) = 0 \<and>
   spec_qe_next_v 1 (1/2) (3/4) (3/8) 0 0 (1/10) = 1/4"
  by (simp add: qe_next_v_def spec_qe_next_v_def Let_def power2_eq_square sqrt_four_ninths)

text \<open>
  C5, amended: with \<open>m\<close> and \<open>s\<^sup>2\<close> the moment-matched mean and variance and
  \<open>\<psi> = s\<^sup>2 / m\<^sup>2\<close>, the update branches on \<open>\<psi> < 1.5\<close>: when \<open>\<psi> < 1.5\<close> the next variance
  is \<open>a (\<surd>b\<^sup>2 + Z)\<^sup>2\<close> with \<open>b\<^sup>2 = 2/\<psi> - 1 + \<surd>(4/\<psi>\<^sup>2 - 2/\<psi>)\<close> and \<open>a = m / (1 + b\<^sup>2)\<close>;
  when \<open>\<psi> \<ge> 1.5\<close> it is \<open>0\<close> if \<open>U < p\<close> and \<open>ln ((1 - p) / (1 - U)) / \<beta>\<close> otherwise, with
  \<open>p = (\<psi> - 1) / (\<psi> + 1)\<close> and \<open>\<beta> = (1 - p) / m\<close>. The guards \<open>\<psi> < 2\<close> and \<open>\<psi> > 1\<close> of
  the code and its clipping at \<open>0\<close> under the root never act on the selected branch.
\<close>

theorem qe_next_v_branches:
  "qe_next_v theta0 C1 C2 C3 Vij z u =
     (let m = Vij * C1 + theta0 * (1 - C1);
          psi = (Vij * C2 + C3) / m\<^sup>2
      in if psi < 1.5 then
           m / (1 + (2 / psi - 1 + sqrt (4 / psi\<^sup>2 - 2 / psi))) *
             (sqrt (2 / psi - 1 + sqrt (4 / psi\<^sup>2 - 2 / psi)) + z)\<^sup>2
         else if u < (psi - 1) / (psi + 1) then 0
         else ln ((1 - (psi - 1) / (psi + 1)) / (1 - u)) / ((1 - (psi - 1) / (psi + 1)) / m))"
proof -
  define m where "m = Vij * C1 + theta0 * (1 - C1)"
  define psi where "psi = (Vij * C2 + C3) / m\<^sup>2"
  have lhs: "qe_next_v theta0 C1 C2 C3 Vij z u =
     (let b_sq = (if psi < 2 then 2 / psi - 1 + sqrt (max (4 / psi\<^sup>2 - 2 / psi) 0) else 0);
          a = m / (1 + b_sq);
          p = (if psi > 1 then (psi - 1) / (psi + 1) else 0);
          beta = (1 - p) / m
      in if psi < 1.5 then a * (sqrt b_sq + z)\<^sup>2
         else if u < p then 0 else ln ((1 - p) / (1 - u)) / beta)"
    unfolding qe_next_v_def psi_def m_def Let_def by (rule refl)
  have main: "qe_next_v theta0 C1 C2 C3 Vij z u =
      (if psi < 1.5 then
           m / (1 + (2 / psi - 1 + sqrt (4 / psi\<^sup>2 - 2 / psi))) *
             (sqrt (2 / psi - 1 + sqrt (4 / psi\<^sup>2 - 2 / psi)) + z)\<^sup>2
         else if u < (psi - 1) / (psi + 1) then 0
         else ln ((1 - (psi - 1) / (psi + 1)) / (1 - u)) / ((1 - (psi - 1) / (psi + 1)) / m))"
  proof (cases "psi < 1.5")
    case True
    then have "psi < 2" by simp
    with True show ?thesis
      unfolding lhs Let_def by (simp only: max_drop if_True)
  next
    case False
    then have "psi > 1" by simp
    with False show ?thesis
      unfolding lhs Let_def by (simp only: if_True if_False)
  qed
  show ?thesis
    unfolding main unfolding psi_def m_def Let_def by (rule refl)
qed

section \<open>The conditional distribution function of the exact scheme\<close>

lemma bk_loop_raises:
  "bk_loop iv self h x vprev vnext dt truncation_error 1 prob = Inl AttributeError"
  by (simp add: cmath_abs_def)

lemma bk_prob_unfold:
  "bk_prob iv deriv self x vprev vnext dt truncation_error small_tail_stddev =
     (if x \<le> 0 then Inr 0
      else bind_err (deriv (\<lambda>u. bk_cf iv self u vprev vnext dt) 0 0.001 1) (\<lambda>d1.
           bind_err (deriv (\<lambda>u. bk_cf iv self u vprev vnext dt) 0 0.001 2) (\<lambda>d2.
           Inl AttributeError)))"
  unfolding bk_prob_def Let_def bk_loop_raises
  by (simp add: bind_err_def math_sqrt_def split: sum.splits)


lemma exact_step_parts:
  "exact_step iv deriv brentq ncx2_rvs Z U self dt df nc truncation_error small_tail_stddev
       paths i Vi Si =
     bind_err (exact_next_V ncx2_rvs self dt df nc paths i Vi) (\<lambda>Vn.
     bind_err (map_err (\<lambda>j. exact_int_v iv deriv brentq self dt truncation_error
                               small_tail_stddev (Vi ! j) (Vn ! j) (U i j)) [0..<paths])
       (\<lambda>int_v.
     bind_err (exact_next_S Z self dt paths i Vi Vn int_v Si) (\<lambda>Sn.
     Inr (Vn, Sn))))"
  by (rule exact_step_def)

text \<open>
  C6 says that for every \<open>x > 0\<close> the series loop of the distribution function sums at
  most 999 terms and the evaluation always returns. In the code the evaluation never
  returns for \<open>x > 0\<close>: once the two numerical derivatives are computed, the first test
  of the loop condition raises \<^verbatim>\<open>AttributeError\<close> at \<^verbatim>\<open>cmath.abs\<close>, before any term is
  added. Only \<open>x \<le> 0\<close> returns, with \<open>0\<close>.
\<close>

theorem bk_prob_raises:
  "bk_prob iv deriv self x vprev vnext dt truncation_error small_tail_stddev =
     (if x \<le> 0 then Inr 0
      else bind_err (deriv (\<lambda>u. bk_cf iv self u vprev vnext dt) 0 0.001 1) (\<lambda>d1.
           bind_err (deriv (\<lambda>u. bk_cf iv self u vprev vnext dt) 0 0.001 2) (\<lambda>d2.
           Inl AttributeError)))"
  by (rule bk_prob_unfold)

text \<open>
  C7 says that the integrated-variance sample is the bound \<open>x_max\<close> when
  \<open>F(x_max) \<le> U\<close> and the root of \<open>F(x) = U\<close> on \<open>[0, x_max]\<close> otherwise, with no error.
  In the code that holds only for \<open>x_max \<le> 0\<close>, where \<open>F(x_max) = 0\<close>. For \<open>x_max > 0\<close>
  the evaluation of \<open>F(x_max)\<close> raises, so the sample is neither the bound nor a root:
  the step ends with an exception.
\<close>

theorem exact_int_v_raises:
  "exact_int_v iv deriv brentq self dt truncation_error small_tail_stddev Vij Vnj u =
     (if (Vij + Vnj) * dt * 10 \<le> 0 then
        (if 0 \<le> u then Inr ((Vij + Vnj) * dt * 10)
         else brentq (\<lambda>x. bind_err (bk_prob iv deriv self x Vij Vnj dt truncation_error
                                    small_tail_stddev) (\<lambda>y. Inr (y - u)))
             0 ((Vij + Vnj) * dt * 10))
      else bind_err (deriv (\<lambda>u. bk_cf iv self u Vij Vnj dt) 0 0.001 1) (\<lambda>d1.
           bind_err (deriv (\<lambda>u. bk_cf iv self u Vij Vnj dt) 0 0.001 2) (\<lambda>d2.
           Inl AttributeError)))"
  unfolding exact_int_v_def Let_def
  by (subst bk_prob_unfold) (simp add: bind_err_def split: sum.splits)

section \<open>The exact scheme and the number of paths\<close>

text \<open>
  After the inner loop \<^verbatim>\<open>simulate_exact\<close> applies \<^verbatim>\<open>math.sqrt\<close> and \<^verbatim>\<open>math.exp\<close> to
  arrays with one entry per path. With at least one step and a path count other than
  \<open>1\<close> the simulator therefore never returns a grid, whatever the variates.
\<close>

lemma map_err_length: "map_err f xs = Inr ys \<Longrightarrow> length ys = length xs"
  by (induction xs arbitrary: ys) (auto simp: bind_err_def split: sum.splits)

lemma math_sqrt_array_needs_one: "length xs \<noteq> 1 \<Longrightarrow> math_sqrt_array xs = Inl TypeError"
  by (cases xs) (auto simp: math_sqrt_array_def split: list.splits)

lemma exact_step_needs_one_path:
  assumes "paths \<noteq> 1"
  shows "exact_step iv deriv brentq ncx2_rvs Z U self dt df nc te sts paths i Vi Si \<noteq> Inr p"
proof -
  have "length int_v \<noteq> 1"
    if "map_err f [0..<paths] = Inr int_v" for f :: "nat \<Rightarrow> py_error + real" and int_v
    using map_err_length [OF that] assms by simp
  then show ?thesis
    unfolding exact_step_def exact_next_S_def Let_def
    by (auto simp: bind_err_def math_sqrt_array_needs_one split: sum.splits)
qed

lemma simulate_exact_needs_one_path:
  assumes "0 < steps" and "paths \<noteq> 1"
  shows "simulate_exact iv deriv brentq ncx2_rvs Z uniform_rvs self t steps paths
           te sts return_v \<noteq> Inr p"
proof -
  from assms(1) obtain n where n: "steps = Suc n" by (cases steps) simp_all
  have "exact_loop iv deriv brentq ncx2_rvs Z U self dt df nc te sts paths V0 S0 (Suc n)
          \<noteq> Inr q" for U dt df nc V0 S0 q
    using exact_step_needs_one_path [OF assms(2)]
    by (auto simp: bind_err_def split: sum.splits prod.splits)
  then show ?thesis
    unfolding simulate_exact_def n
    by (auto simp: bind_err_def split: sum.splits)
qed

section \<open>The inversion target of the exact scheme\<close>



section \<open>Non-negative variance in the QE and exact schemes\<close>

lemma qe_next_v_nonneg:
  assumes V: "0 \<le> Vij" and th: "0 < theta0" and C1: "0 < C1" "C1 < 1"
    and C2: "0 \<le> C2" and C3: "0 < C3" and u: "0 \<le> u" "u < 1"
  shows "0 \<le> qe_next_v theta0 C1 C2 C3 Vij z u"
proof -
  define m where "m = Vij * C1 + theta0 * (1 - C1)"
  define psi where "psi = (Vij * C2 + C3) / m\<^sup>2"
  have m: "0 < m"
    unfolding m_def using V th C1 by (intro add_nonneg_pos mult_nonneg_nonneg mult_pos_pos) simp_all
  have ssq: "0 < Vij * C2 + C3"
    using V C2 C3 by (intro add_nonneg_pos mult_nonneg_nonneg) simp_all
  have psi: "0 < psi"
    unfolding psi_def using m ssq by simp
  have lhs: "qe_next_v theta0 C1 C2 C3 Vij z u =
     (let b_sq = (if psi < 2 then 2 / psi - 1 + sqrt (max (4 / psi\<^sup>2 - 2 / psi) 0) else 0);
          a = m / (1 + b_sq);
          p = (if psi > 1 then (psi - 1) / (psi + 1) else 0);
          beta = (1 - p) / m
      in if psi < 1.5 then a * (sqrt b_sq + z)\<^sup>2
         else if u < p then 0 else ln ((1 - p) / (1 - u)) / beta)"
    unfolding qe_next_v_def psi_def m_def Let_def by (rule refl)
  show ?thesis
  proof (cases "psi < 1.5")
    case True
    define b where "b = 2 / psi - 1 + sqrt (max (4 / psi\<^sup>2 - 2 / psi) 0)"
    have "1 < 2 / psi" using psi True by (simp add: field_simps)
    then have "0 < 2 / psi - 1" by simp
    moreover have "0 \<le> sqrt (max (4 / psi\<^sup>2 - 2 / psi) 0)" by simp
    ultimately have b: "0 < b" unfolding b_def by linarith
    have "0 \<le> m / (1 + b) * (sqrt b + z)\<^sup>2"
      using m b by (intro mult_nonneg_nonneg divide_nonneg_nonneg) simp_all
    moreover have "psi < 2" using True by simp
    ultimately show ?thesis
      unfolding lhs Let_def b_def using True by simp
  next
    case False
    then have p1: "1 < psi" by simp
    define p where "p = (psi - 1) / (psi + 1)"
    have p: "0 < p" "p < 1" unfolding p_def using p1 by (simp_all add: field_simps)
    have val: "qe_next_v theta0 C1 C2 C3 Vij z u =
        (if u < p then 0 else ln ((1 - p) / (1 - u)) / ((1 - p) / m))"
      unfolding lhs Let_def p_def using False p1 by simp
    show ?thesis
    proof (cases "u < p")
      case True
      then show ?thesis unfolding val by simp
    next
      case False
      then have "1 - u \<le> 1 - p" by simp
      moreover have "0 < 1 - u" using u by simp
      ultimately have "1 \<le> (1 - p) / (1 - u)" by (simp add: field_simps)
      then have "0 \<le> ln ((1 - p) / (1 - u))" by simp
      moreover have "0 < (1 - p) / m" using p m by simp
      ultimately have "0 \<le> ln ((1 - p) / (1 - u)) / ((1 - p) / m)"
        by (rule divide_nonneg_pos)
      then show ?thesis unfolding val using False by simp
    qed
  qed
qed

lemma qe_loop_inv:
  assumes th: "0 < theta self" and C1: "0 < C1" "C1 < 1"
    and C2: "0 \<le> C2" and C3: "0 < C3" and U: "\<And>i j. 0 \<le> U i j \<and> U i j < 1"
    and V0: "length V0 = paths" "\<forall>x\<in>set V0. 0 \<le> x"
  shows "qe_loop self dt K0 K1 K2 K3 C1 C2 C3 Z U paths V0 S0 i = (V, S) \<Longrightarrow>
         length V = Suc i \<and> (\<forall>row\<in>set V. length row = paths \<and> (\<forall>x\<in>set row. 0 \<le> x))"
proof (induction i arbitrary: V S)
  case 0
  then show ?case using V0 by auto
next
  case (Suc i)
  obtain V' S' where prev: "qe_loop self dt K0 K1 K2 K3 C1 C2 C3 Z U paths V0 S0 i = (V', S')"
    by (cases "qe_loop self dt K0 K1 K2 K3 C1 C2 C3 Z U paths V0 S0 i")
  from Suc.IH [OF prev] have len: "length V' = Suc i"
    and rows: "\<forall>row\<in>set V'. length row = paths \<and> (\<forall>x\<in>set row. 0 \<le> x)" by simp_all
  have Vi: "V' ! i \<in> set V'" using len by simp
  with rows have Vilen: "length (V' ! i) = paths" and Vipos: "\<forall>x\<in>set (V' ! i). 0 \<le> x" by blast+
  define Vn where "Vn = map (\<lambda>j. qe_next_v (theta self) C1 C2 C3 (V' ! i ! j) (Z 0 i j) (U i j))
                          [0..<paths]"
  have Vn: "length Vn = paths \<and> (\<forall>x\<in>set Vn. 0 \<le> x)"
  proof -
    have "0 \<le> qe_next_v (theta self) C1 C2 C3 (V' ! i ! j) (Z 0 i j) (U i j)" if "j < paths" for j
    proof -
      have "V' ! i ! j \<in> set (V' ! i)" using that Vilen by simp
      then have "0 \<le> V' ! i ! j" using Vipos by blast
      then show ?thesis using th C1 C2 C3 U [of i j] by (intro qe_next_v_nonneg) simp_all
    qed
    then show ?thesis unfolding Vn_def by auto
  qed
  have "V = V' @ [Vn]"
    using Suc.prems prev unfolding Vn_def by (simp add: qe_step_def Let_def)
  then show ?case using len rows Vn by auto
qed


lemma simulate_qe_V_nonneg:
  assumes ok: "spec_range_ok (s self) (v self) (kappa self) (theta self) (sigma self) (rho self)"
    and t: "0 < t" and steps: "0 < steps"
    and U: "\<And>i j. 0 \<le> U i j \<and> U i j < 1"
    and res: "simulate_qe Z U self t steps paths True = Inr (S, Some V)"
  shows "\<forall>row\<in>set V. \<forall>x\<in>set row. 0 \<le> x"
proof -
  from ok have k: "0 < kappa self" and th: "0 < theta self" and sg: "0 < sigma self"
    and v0: "0 \<le> v self"
    by (simp_all add: spec_range_ok_def)
  define dt where "dt = t / real steps"
  define C1 where "C1 = exp (- kappa self * dt)"
  define C2 where "C2 = (sigma self)\<^sup>2 * C1 * (1 - C1) / kappa self"
  define C3 where "C3 = 0.5 * theta self * (sigma self)\<^sup>2 * (1 - C1)\<^sup>2 / kappa self"
  have dt: "0 < dt" unfolding dt_def using t steps by simp
  have C1: "0 < C1" "C1 < 1" unfolding C1_def using k dt by simp_all
  have C2: "0 \<le> C2" unfolding C2_def using C1 k sg by simp
  have C3: "0 < C3" unfolding C3_def using C1 k sg th by simp
  obtain K0 K1 K2 K3 where
    loop: "qe_loop self dt K0 K1 K2 K3 C1 C2 C3 Z U paths
             (replicate paths (v self)) (replicate paths (s self)) steps = (V, S)"
    using res steps sg k
    unfolding simulate_qe_def dt_def C1_def C2_def C3_def
    by (auto simp: fdiv_def bind_err_def Let_def split: prod.splits)
  have "length V = Suc steps \<and> (\<forall>row\<in>set V. length row = paths \<and> (\<forall>x\<in>set row. 0 \<le> x))"
    using th C1 C2 C3 U _ _ loop
    by (rule qe_loop_inv) (use v0 in simp_all)
  then show ?thesis by blast
qed

lemma exact_step_V_nonneg:
  assumes k: "0 < kappa self" and dt: "0 < dt"
    and chi: "\<And>i j df nc. 0 \<le> ncx2_rvs i j df nc"
    and res: "exact_step iv deriv brentq ncx2_rvs Z U self dt df nc te sts paths i Vi Si
                = Inr (Vn, Sn)"
  shows "\<forall>x\<in>set Vn. 0 \<le> x"
proof -
  define c where "c = (sigma self)\<^sup>2 * (1 - exp (- kappa self * dt)) / (4 * kappa self)"
  have "exp (- kappa self * dt) < 1" using k dt by simp
  then have c: "0 \<le> c" unfolding c_def using k by simp
  have "Vn = map (\<lambda>j. c * ncx2_rvs i j df (nc * (Vi ! j))) [0..<paths]"
    using res k unfolding exact_step_def exact_next_V_def c_def
    by (auto simp: fdiv_def bind_err_def Let_def split: sum.splits)
  then show ?thesis using c chi by auto
qed

lemma exact_loop_V_nonneg:
  assumes k: "0 < kappa self" and dt: "0 < dt"
    and chi: "\<And>i j df nc. 0 \<le> ncx2_rvs i j df nc"
    and V0: "\<forall>x\<in>set V0. 0 \<le> x"
  shows "exact_loop iv deriv brentq ncx2_rvs Z U self dt df nc te sts paths V0 S0 i
           = Inr (V, S) \<Longrightarrow> \<forall>row\<in>set V. \<forall>x\<in>set row. 0 \<le> x"
proof (induction i arbitrary: V S)
  case 0
  then show ?case using V0 by auto
next
  case (Suc i)
  from Suc.prems obtain V' S' Vn Sn where
    prev: "exact_loop iv deriv brentq ncx2_rvs Z U self dt df nc te sts paths V0 S0 i
             = Inr (V', S')"
    and step: "exact_step iv deriv brentq ncx2_rvs Z U self dt df nc te sts paths i
                 (V' ! i) (S' ! i) = Inr (Vn, Sn)"
    and V: "V = V' @ [Vn]"
    by (auto simp: bind_err_def split: sum.splits prod.splits)
  from Suc.IH [OF prev] have "\<forall>row\<in>set V'. \<forall>x\<in>set row. 0 \<le> x" .
  moreover from exact_step_V_nonneg [OF k dt chi step] have "\<forall>x\<in>set Vn. 0 \<le> x" .
  ultimately show ?case unfolding V by auto
qed

lemma simulate_exact_V_nonneg:
  assumes ok: "spec_range_ok (s self) (v self) (kappa self) (theta self) (sigma self) (rho self)"
    and t: "0 < t" and steps: "0 < steps"
    and chi: "\<And>i j df nc. 0 \<le> ncx2_rvs i j df nc"
    and res: "simulate_exact iv deriv brentq ncx2_rvs Z uniform_rvs self t steps paths
                te sts True = Inr (S, Some V)"
  shows "\<forall>row\<in>set V. \<forall>x\<in>set row. 0 \<le> x"
proof -
  from ok have k: "0 < kappa self" and v0: "0 \<le> v self"
    by (simp_all add: spec_range_ok_def)
  have dt: "0 < t / real steps" using t steps by simp
  from res obtain df nc where
    loop: "exact_loop iv deriv brentq ncx2_rvs Z (exact_U uniform_rvs) self (t / real steps)
             df nc te sts paths (replicate paths (v self)) (replicate paths (s self)) steps
           = Inr (V, S)"
    using steps unfolding simulate_exact_def
    by (auto simp: fdiv_def bind_err_def split: sum.splits prod.splits if_splits)
  show ?thesis
    by (rule exact_loop_V_nonneg [OF k dt chi _ loop]) (use v0 in simp)
qed

lemma qe_returns:
  "\<exists>S V. simulate_qe (\<lambda>c i j. 0) (\<lambda>i j. 1/2)
      \<lparr>s = 100, v = 0, kappa = 2, theta = 0.04, sigma = 0.3, rho = - 0.7, r = 0\<rparr> 1 1 1 True
    = Inr (S, Some V)"
  by (simp add: simulate_qe_def fdiv_def bind_err_def Let_def split: prod.splits)

lemma exact_returns:
  "\<exists>S V. simulate_exact (\<lambda>nu z. 1) (\<lambda>f x0 dx n. Inr 0) (\<lambda>f a b. Inr a) (\<lambda>i j df nc. 0)
      (\<lambda>i j. 0) (\<lambda>i j. 1/2)
      \<lparr>s = 100, v = 0, kappa = 2, theta = 0.04, sigma = 0.3, rho = - 0.7, r = 0\<rparr> 1 1 1
      (1/100000) 5 True
    = Inr (S, Some V)"
  by (simp add: simulate_exact_def fdiv_def bind_err_def exact_step_def exact_next_V_def
      exact_next_S_def exact_int_v_def bk_prob_def exact_U_def math_sqrt_array_def
      math_exp_array_def math_sqrt_def Let_def power2_eq_square)

lemma exact_next_V_nonneg:
  assumes k: "0 < kappa self" and dt: "0 < dt"
    and chi: "\<And>i j df nc. 0 \<le> ncx2_rvs i j df nc"
  shows "\<exists>Vn. exact_next_V ncx2_rvs self dt df nc paths i Vi = Inr Vn \<and> length Vn = paths \<and>
           (\<forall>x\<in>set Vn. 0 \<le> x)"
proof -
  define c where "c = (sigma self)\<^sup>2 * (1 - exp (- kappa self * dt)) / (4 * kappa self)"
  have "exp (- kappa self * dt) < 1" using k dt by simp
  then have c: "0 \<le> c" unfolding c_def using k by simp
  have "exact_next_V ncx2_rvs self dt df nc paths i Vi
          = Inr (map (\<lambda>j. c * ncx2_rvs i j df (nc * (Vi ! j))) [0..<paths])"
    using k unfolding exact_next_V_def c_def by (simp add: fdiv_def bind_err_def)
  moreover have "\<forall>x\<in>set (map (\<lambda>j. c * ncx2_rvs i j df (nc * (Vi ! j))) [0..<paths]). 0 \<le> x"
    using c chi by auto
  ultimately show ?thesis by simp
qed

lemma exact_next_V_positive_draw:
  "\<exists>Vn. exact_next_V (\<lambda>i j df nc. 1)
       \<lparr>s = 100, v = 0.04, kappa = 2, theta = 0.04, sigma = 0.3, rho = - 0.7, r = 0\<rparr>
       1 1 1 2 0 [0.04, 0.04] = Inr Vn \<and> 0 < Vn ! 0"
proof -
  have "0 < (0.3::real)\<^sup>2 * (1 - exp (- 2)) / (4 * 2)" by simp
  then show ?thesis
    by (simp add: exact_next_V_def fdiv_def bind_err_def upt_rec)
qed

text \<open>
  C3: for the QE and the exact simulator every entry \<open>V[i, j]\<close> of the variance grid is
  non-negative, for all time indices, all paths and all realizations of the variates:
  the normal variates are arbitrary, the uniform ones lie in \<open>[0, 1)\<close> and the
  noncentral chi-squared ones are non-negative, as their generators guarantee. The
  model parameters are in range and \<open>t > 0\<close>, \<open>steps \<ge> 1\<close>. For the QE simulator this is
  stated of the grid it returns. The exact simulator returns a grid only in a
  degenerate case (C6, C7), so for it the statement is made where the grid is built:
  in every pass, from any row and for any path count, the assignment of lines 434 to
  436 succeeds and writes a row of \<open>paths\<close> non-negative entries; that row is the
  variance row of the pass; and the grid is non-negative whenever one is returned.
\<close>

theorem qe_exact_variance_nonneg:
  assumes "spec_range_ok (s self) (v self) (kappa self) (theta self) (sigma self) (rho self)"
    and "0 < t" and "0 < steps"
    and "\<forall>i j. 0 \<le> U i j \<and> U i j < 1"
    and "\<forall>i j df nc. 0 \<le> ncx2_rvs i j df nc"
  shows "(\<forall>S V. simulate_qe Z U self t steps paths True = Inr (S, Some V) \<longrightarrow>
            (\<forall>row\<in>set V. \<forall>x\<in>set row. 0 \<le> x)) \<and>
         (\<forall>df nc i Vi. \<exists>Vn. exact_next_V ncx2_rvs self (t / real steps) df nc paths i Vi = Inr Vn \<and>
            length Vn = paths \<and> (\<forall>x\<in>set Vn. 0 \<le> x)) \<and>
         (\<forall>U' df nc i Vi Si.
            exact_step iv deriv brentq ncx2_rvs Z' U' self (t / real steps) df nc
                truncation_error small_tail_stddev paths i Vi Si =
              bind_err (exact_next_V ncx2_rvs self (t / real steps) df nc paths i Vi) (\<lambda>Vn.
              bind_err (map_err (\<lambda>j. exact_int_v iv deriv brentq self (t / real steps)
                                        truncation_error small_tail_stddev (Vi ! j) (Vn ! j)
                                        (U' i j)) [0..<paths]) (\<lambda>int_v.
              bind_err (exact_next_S Z' self (t / real steps) paths i Vi Vn int_v Si) (\<lambda>Sn.
              Inr (Vn, Sn))))) \<and>
         (\<forall>S V. simulate_exact iv deriv brentq ncx2_rvs Z' uniform_rvs self t steps paths
                   truncation_error small_tail_stddev True = Inr (S, Some V) \<longrightarrow>
            (\<forall>row\<in>set V. \<forall>x\<in>set row. 0 \<le> x))"
proof (intro conjI)
  from assms(1) have k: "0 < kappa self" by (simp add: spec_range_ok_def)
  have dt: "0 < t / real steps" using assms(2,3) by simp
  show "\<forall>S V. simulate_qe Z U self t steps paths True = Inr (S, Some V) \<longrightarrow>
            (\<forall>row\<in>set V. \<forall>x\<in>set row. 0 \<le> x)"
    using assms simulate_qe_V_nonneg [of self t steps U Z paths] by blast
  show "\<forall>df nc i Vi. \<exists>Vn. exact_next_V ncx2_rvs self (t / real steps) df nc paths i Vi = Inr Vn \<and>
            length Vn = paths \<and> (\<forall>x\<in>set Vn. 0 \<le> x)"
    using exact_next_V_nonneg [OF k dt, of ncx2_rvs] assms(5) by blast
  show "\<forall>U' df nc i Vi Si.
            exact_step iv deriv brentq ncx2_rvs Z' U' self (t / real steps) df nc
                truncation_error small_tail_stddev paths i Vi Si =
              bind_err (exact_next_V ncx2_rvs self (t / real steps) df nc paths i Vi) (\<lambda>Vn.
              bind_err (map_err (\<lambda>j. exact_int_v iv deriv brentq self (t / real steps)
                                        truncation_error small_tail_stddev (Vi ! j) (Vn ! j)
                                        (U' i j)) [0..<paths]) (\<lambda>int_v.
              bind_err (exact_next_S Z' self (t / real steps) paths i Vi Vn int_v Si) (\<lambda>Sn.
              Inr (Vn, Sn))))"
    by (intro allI) (rule exact_step_parts)
  show "\<forall>S V. simulate_exact iv deriv brentq ncx2_rvs Z' uniform_rvs self t steps paths
                   truncation_error small_tail_stddev True = Inr (S, Some V) \<longrightarrow>
            (\<forall>row\<in>set V. \<forall>x\<in>set row. 0 \<le> x)"
    using assms simulate_exact_V_nonneg [of self t steps ncx2_rvs iv deriv brentq Z'
        uniform_rvs paths truncation_error small_tail_stddev] by blast
qed

theorem qe_exact_variance_nonneg_witness:
  "spec_range_ok 100 0 2 0.04 0.3 (- 0.7) \<and>
   (\<exists>S V. simulate_qe (\<lambda>c i j. 0) (\<lambda>i j. 1/2)
       \<lparr>s = 100, v = 0, kappa = 2, theta = 0.04, sigma = 0.3, rho = - 0.7, r = 0\<rparr> 1 1 1 True
      = Inr (S, Some V) \<and> (\<forall>row\<in>set V. \<forall>x\<in>set row. 0 \<le> x)) \<and>
   (\<exists>Vn. exact_next_V (\<lambda>i j df nc. 1)
       \<lparr>s = 100, v = 0.04, kappa = 2, theta = 0.04, sigma = 0.3, rho = - 0.7, r = 0\<rparr>
       1 1 1 2 0 [0.04, 0.04] = Inr Vn \<and> length Vn = 2 \<and> (\<forall>x\<in>set Vn. 0 \<le> x) \<and> 0 < Vn ! 0) \<and>
   (\<exists>S V. simulate_exact (\<lambda>nu z. 1) (\<lambda>f x0 dx n. Inr 0) (\<lambda>f a b. Inr a) (\<lambda>i j df nc. 0)
       (\<lambda>i j. 0) (\<lambda>i j. 1/2)
       \<lparr>s = 100, v = 0, kappa = 2, theta = 0.04, sigma = 0.3, rho = - 0.7, r = 0\<rparr> 1 1 1
       (1/100000) 5 True
      = Inr (S, Some V) \<and> (\<forall>row\<in>set V. \<forall>x\<in>set row. 0 \<le> x))"
proof -
  let ?self = "\<lparr>s = 100, v = 0, kappa = 2, theta = 0.04, sigma = 0.3, rho = - 0.7, r = 0\<rparr>"
  let ?scen = "\<lparr>s = 100, v = 0.04, kappa = 2, theta = 0.04, sigma = 0.3, rho = - 0.7, r = 0\<rparr>"
  have ok: "spec_range_ok (s ?self) (v ?self) (kappa ?self) (theta ?self) (sigma ?self)
              (rho ?self)"
    by (simp add: spec_range_ok_def)
  have ok': "spec_range_ok (s ?scen) (v ?scen) (kappa ?scen) (theta ?scen) (sigma ?scen)
              (rho ?scen)"
    by (simp add: spec_range_ok_def)
  have U: "\<forall>i j. (0::real) \<le> (\<lambda>i j. 1/2) (i::nat) (j::nat) \<and> (\<lambda>i j. 1/2) i j < (1::real)"
    by simp
  have chi0: "\<forall>i j df nc. (0::real) \<le> (\<lambda>i j df nc. 0) (i::nat) (j::nat) (df::real) (nc::real)"
    by simp
  have chi1: "\<forall>i j df nc. (0::real) \<le> (\<lambda>i j df nc. 1) (i::nat) (j::nat) (df::real) (nc::real)"
    by simp
  have t1: "(0::real) < 1" and s1: "(0::nat) < 1" by simp_all
  note zero = qe_exact_variance_nonneg [where self = ?self and t = 1 and steps = 1
      and U = "\<lambda>i j. 1/2" and ncx2_rvs = "\<lambda>i j df nc. 0" and Z = "\<lambda>c i j. 0" and paths = 1
      and iv = "\<lambda>nu z. 1" and deriv = "\<lambda>f x0 dx n. Inr 0" and brentq = "\<lambda>f a b. Inr a"
      and Z' = "\<lambda>i j. 0" and uniform_rvs = "\<lambda>i j. 1/2" and truncation_error = "1/100000"
      and small_tail_stddev = 5, OF ok t1 s1 U chi0]
  note one = qe_exact_variance_nonneg [where self = ?scen and t = 1 and steps = 1
      and U = "\<lambda>i j. 1/2" and ncx2_rvs = "\<lambda>i j df nc. 1" and Z = "\<lambda>c i j. 0" and paths = 2
      and iv = "\<lambda>nu z. 1" and deriv = "\<lambda>f x0 dx n. Inr 0" and brentq = "\<lambda>f a b. Inr a"
      and Z' = "\<lambda>i j. 0" and uniform_rvs = "\<lambda>i j. 1/2" and truncation_error = "1/100000"
      and small_tail_stddev = 5, OF ok' t1 s1 U chi1]
  from qe_returns obtain S V where
    q: "simulate_qe (\<lambda>c i j. 0) (\<lambda>i j. 1/2) ?self 1 1 1 True = Inr (S, Some V)" by blast
  from exact_returns obtain S' V' where
    e: "simulate_exact (\<lambda>nu z. 1) (\<lambda>f x0 dx n. Inr 0) (\<lambda>f a b. Inr a) (\<lambda>i j df nc. 0)
          (\<lambda>i j. 0) (\<lambda>i j. 1/2) ?self 1 1 1 (1/100000) 5 True = Inr (S', Some V')" by blast
  from zero [THEN conjunct1, THEN spec, THEN spec, THEN mp, OF q]
  have qn: "\<forall>row\<in>set V. \<forall>x\<in>set row. 0 \<le> x" .
  from zero [THEN conjunct2, THEN conjunct2, THEN conjunct2, THEN spec, THEN spec, THEN mp, OF e]
  have en: "\<forall>row\<in>set V'. \<forall>x\<in>set row. 0 \<le> x" .
  from one [THEN conjunct2, THEN conjunct1, THEN spec, THEN spec, THEN spec, THEN spec,
      of 1 1 0 "[0.04, 0.04]"]
  obtain Vn where vn: "exact_next_V (\<lambda>i j df nc. 1) ?scen 1 1 1 2 0 [0.04, 0.04] = Inr Vn"
    and len: "length Vn = 2" and nn: "\<forall>x\<in>set Vn. 0 \<le> x"
    by auto
  from exact_next_V_positive_draw vn have pos: "0 < Vn ! 0" by auto
  have r: "spec_range_ok 100 0 2 0.04 0.3 (- 0.7)" by (simp add: spec_range_ok_def)
  show ?thesis
    using r q qn vn len nn pos e en by blast
qed

section \<open>The first row of the grids\<close>

subsection \<open>Bounds on the exponential\<close>

lemma taylor_exp_0: "taylor_exp x 0 c = c"
  by (simp add: taylor_exp_def)

lemma taylor_exp_Suc:
  "taylor_exp x (Suc n) c = taylor_exp x n (1 + x * c / real (Suc n))"
proof -
  have f: "fact (Suc n) = real (Suc n) * (fact n :: real)" by simp
  have "c * x ^ Suc n / fact (Suc n) = (x * c / real (Suc n)) * x ^ n / fact n"
    unfolding f by simp
  then have "x ^ n / fact n + c * x ^ Suc n / fact (Suc n)
               = (1 + x * c / real (Suc n)) * x ^ n / fact n"
    by (simp add: algebra_simps add_divide_distrib)
  then show ?thesis
    unfolding taylor_exp_def by simp
qed

lemma taylor_exp_mono:
  assumes "0 \<le> x" "c \<le> c'"
  shows "taylor_exp x n c \<le> taylor_exp x n c'"
  unfolding taylor_exp_def using assms
  by (intro add_left_mono divide_right_mono mult_right_mono) simp_all

lemma taylor_exp_step_up:
  assumes "m = Suc n" "0 \<le> x" "1 + x * c / real m \<le> c'"
  shows "taylor_exp x m c \<le> taylor_exp x n c'"
  unfolding assms(1) taylor_exp_Suc using assms(2,3) unfolding assms(1)
  by (rule taylor_exp_mono)

lemma taylor_exp_step_down:
  assumes "m = Suc n" "0 \<le> x" "c' \<le> 1 + x * c / real m"
  shows "taylor_exp x n c' \<le> taylor_exp x m c"
  unfolding assms(1) taylor_exp_Suc using assms(2,3) unfolding assms(1)
  by (rule taylor_exp_mono)

lemma taylor_exp_le_exp:
  assumes "0 \<le> x"
  shows "taylor_exp x n 0 \<le> exp x"
proof -
  obtain t where "exp x = (\<Sum>m<n. x ^ m / fact m) + (exp t / fact n) * x ^ n"
    using Maclaurin_exp_le [of x n] by blast
  moreover have "0 \<le> (exp t / fact n) * x ^ n"
    using assms by simp
  ultimately show ?thesis unfolding taylor_exp_def by simp
qed

lemma exp_le_taylor_exp:
  assumes "0 \<le> x" "x \<le> 1"
  shows "exp x \<le> taylor_exp x n 3"
proof -
  obtain t where t: "\<bar>t\<bar> \<le> \<bar>x\<bar>"
    and eq: "exp x = (\<Sum>m<n. x ^ m / fact m) + (exp t / fact n) * x ^ n"
    using Maclaurin_exp_le [of x n] by blast
  have "t \<le> 1" using t assms by linarith
  then have "exp t \<le> exp 1" by simp
  also have "\<dots> \<le> 3" by (rule exp_le)
  finally have "exp t \<le> 3" .
  then have "(exp t / fact n) * x ^ n \<le> (3 / fact n) * x ^ n"
    using assms by (intro mult_right_mono divide_right_mono) simp_all
  then show ?thesis unfolding taylor_exp_def using eq by (simp add: field_simps)
qed

lemma exp_below_100:
  "exp (5184960683398421 / 2 ^ 50 :: real) * (1 + 1 / 2 ^ 52) < 100"
proof -
  let ?x = "5184960683398421 / 2 ^ 53 :: real"
  have x0: "0 \<le> ?x" by simp
  have u17: "taylor_exp ?x 18 (3) \<le> taylor_exp ?x 17 (1324911426730473072274091 / 2 ^ 80)"
    by (rule taylor_exp_step_up) simp_all
  have u16: "taylor_exp ?x 17 (1324911426730473072274091 / 2 ^ 80) \<le> taylor_exp ?x 16 (626894684077366497522209 / 2 ^ 79)"
    by (rule taylor_exp_step_up) simp_all
  have u15: "taylor_exp ?x 16 (626894684077366497522209 / 2 ^ 79) \<le> taylor_exp ?x 15 (1254034518190684039848121 / 2 ^ 80)"
    by (rule taylor_exp_step_up) simp_all
  have u14: "taylor_exp ?x 15 (1254034518190684039848121 / 2 ^ 80) \<le> taylor_exp ?x 14 (314262793185681623673089 / 2 ^ 78)"
    by (rule taylor_exp_step_up) simp_all
  have u13: "taylor_exp ?x 14 (314262793185681623673089 / 2 ^ 78) \<le> taylor_exp ?x 13 (630306367767029630081651 / 2 ^ 79)"
    by (rule taylor_exp_step_up) simp_all
  have u12: "taylor_exp ?x 13 (630306367767029630081651 / 2 ^ 79) \<le> taylor_exp ?x 12 (1264746359862305518427255 / 2 ^ 80)"
    by (rule taylor_exp_step_up) simp_all
  have u11: "taylor_exp ?x 12 (1264746359862305518427255 / 2 ^ 80) \<le> taylor_exp ?x 11 (634798181834787787694379 / 2 ^ 79)"
    by (rule taylor_exp_step_up) simp_all
  have u10: "taylor_exp ?x 11 (634798181834787787694379 / 2 ^ 79) \<le> taylor_exp ?x 10 (159420709443604248063819 / 2 ^ 77)"
    by (rule taylor_exp_step_up) simp_all
  have u9: "taylor_exp ?x 10 (159420709443604248063819 / 2 ^ 77) \<le> taylor_exp ?x 9 (1282341769430504812369067 / 2 ^ 80)"
    by (rule taylor_exp_step_up) simp_all
  have u8: "taylor_exp ?x 9 (1282341769430504812369067 / 2 ^ 80) \<le> taylor_exp ?x 8 (645472646507513027925653 / 2 ^ 79)"
    by (rule taylor_exp_step_up) simp_all
  have u7: "taylor_exp ?x 8 (645472646507513027925653 / 2 ^ 79) \<le> taylor_exp ?x 7 (1301816800476105081954851 / 2 ^ 80)"
    by (rule taylor_exp_step_up) simp_all
  have u6: "taylor_exp ?x 7 (1301816800476105081954851 / 2 ^ 80) \<le> taylor_exp ?x 6 (328995240248170536000651 / 2 ^ 78)"
    by (rule taylor_exp_step_up) simp_all
  have u5: "taylor_exp ?x 6 (328995240248170536000651 / 2 ^ 78) \<le> taylor_exp ?x 5 (166897801115608481846887 / 2 ^ 77)"
    by (rule taylor_exp_step_up) simp_all
  have u4: "taylor_exp ?x 5 (166897801115608481846887 / 2 ^ 77) \<le> taylor_exp ?x 4 (340661093793885799655783 / 2 ^ 78)"
    by (rule taylor_exp_step_up) simp_all
  have u3: "taylor_exp ?x 4 (340661093793885799655783 / 2 ^ 78) \<le> taylor_exp ?x 3 (1405026108697841118631643 / 2 ^ 80)"
    by (rule taylor_exp_step_up) simp_all
  have u2: "taylor_exp ?x 3 (1405026108697841118631643 / 2 ^ 80) \<le> taylor_exp ?x 2 (1478525167377552534095301 / 2 ^ 80)"
    by (rule taylor_exp_step_up) simp_all
  have u1: "taylor_exp ?x 2 (1478525167377552534095301 / 2 ^ 80) \<le> taylor_exp ?x 1 (1634479570867138977975301 / 2 ^ 80)"
    by (rule taylor_exp_step_up) simp_all
  have u0: "taylor_exp ?x 1 (1634479570867138977975301 / 2 ^ 80) \<le> taylor_exp ?x 0 (1074903946642561926773717 / 2 ^ 79)"
    by (rule taylor_exp_step_up) simp_all
  have "exp ?x \<le> taylor_exp ?x 18 3"
    by (rule exp_le_taylor_exp) simp_all
  also have "\<dots> \<le> 1074903946642561926773717 / 2 ^ 79"
    using u17 u16 u15 u14 u13 u12 u11 u10 u9 u8 u7 u6 u5 u4 u3 u2 u1 u0 unfolding taylor_exp_0 by linarith
  finally have e: "exp ?x \<le> 1074903946642561926773717 / 2 ^ 79" .
  have "exp (5184960683398421 / 2 ^ 50 :: real) = exp ?x ^ 8"
    using exp_of_nat_mult [of 8 ?x] by simp
  also have "\<dots> \<le> (1074903946642561926773717 / 2 ^ 79) ^ 8"
    by (rule power_mono [OF e]) simp
  finally have "exp (5184960683398421 / 2 ^ 50 :: real) \<le> (1074903946642561926773717 / 2 ^ 79) ^ 8" .
  then have "exp (5184960683398421 / 2 ^ 50 :: real) * (1 + 1 / 2 ^ 52) \<le> (1074903946642561926773717 / 2 ^ 79) ^ 8 * (1 + 1 / 2 ^ 52)"
    by (rule mult_right_mono) simp
  also have "\<dots> < 100" by (simp add: power_divide divide_simps)
  finally show ?thesis .
qed

lemma exp_above_100:
  "100 < exp (5184960683398422 / 2 ^ 50 :: real) * (1 - 1 / 2 ^ 52)"
proof -
  let ?x = "2592480341699211 / 2 ^ 52 :: real"
  have l17: "taylor_exp ?x 17 (1) \<le> taylor_exp ?x 18 (0)"
    by (rule taylor_exp_step_down) simp_all
  have l16: "taylor_exp ?x 16 (1249861916243750558213541 / 2 ^ 80) \<le> taylor_exp ?x 17 (1)"
    by (rule taylor_exp_step_down) simp_all
  have l15: "taylor_exp ?x 15 (1253893216749689062023117 / 2 ^ 80) \<le> taylor_exp ?x 16 (1249861916243750558213541 / 2 ^ 80)"
    by (rule taylor_exp_step_down) simp_all
  have l14: "taylor_exp ?x 14 (78565359381220767317437 / 2 ^ 76) \<le> taylor_exp ?x 15 (1253893216749689062023117 / 2 ^ 80)"
    by (rule taylor_exp_step_down) simp_all
  have l13: "taylor_exp ?x 13 (1260612512568034562433827 / 2 ^ 80) \<le> taylor_exp ?x 14 (78565359381220767317437 / 2 ^ 76)"
    by (rule taylor_exp_step_down) simp_all
  have l12: "taylor_exp ?x 12 (632373174994631180816419 / 2 ^ 79) \<le> taylor_exp ?x 13 (1260612512568034562433827 / 2 ^ 80)"
    by (rule taylor_exp_step_down) simp_all
  have l11: "taylor_exp ?x 11 (1269596363195960545520809 / 2 ^ 80) \<le> taylor_exp ?x 12 (632373174994631180816419 / 2 ^ 79)"
    by (rule taylor_exp_step_down) simp_all
  have l10: "taylor_exp ?x 10 (318841418881012255537991 / 2 ^ 78) \<le> taylor_exp ?x 11 (1269596363195960545520809 / 2 ^ 80)"
    by (rule taylor_exp_step_down) simp_all
  have l9: "taylor_exp ?x 9 (1282341769429078089407037 / 2 ^ 80) \<le> taylor_exp ?x 10 (318841418881012255537991 / 2 ^ 78)"
    by (rule taylor_exp_step_down) simp_all
  have l8: "taylor_exp ?x 8 (645472646507467408737457 / 2 ^ 79) \<le> taylor_exp ?x 9 (1282341769429078089407037 / 2 ^ 80)"
    by (rule taylor_exp_step_down) simp_all
  have l7: "taylor_exp ?x 7 (325454200119024633685349 / 2 ^ 78) \<le> taylor_exp ?x 8 (645472646507467408737457 / 2 ^ 79)"
    by (rule taylor_exp_step_down) simp_all
  have l6: "taylor_exp ?x 6 (328995240248170406559639 / 2 ^ 78) \<le> taylor_exp ?x 7 (325454200119024633685349 / 2 ^ 78)"
    by (rule taylor_exp_step_down) simp_all
  have l5: "taylor_exp ?x 5 (667591204462433914725405 / 2 ^ 79) \<le> taylor_exp ?x 6 (328995240248170406559639 / 2 ^ 78)"
    by (rule taylor_exp_step_down) simp_all
  have l4: "taylor_exp ?x 4 (681322187587771612677285 / 2 ^ 79) \<le> taylor_exp ?x 5 (667591204462433914725405 / 2 ^ 79)"
    by (rule taylor_exp_step_down) simp_all
  have l3: "taylor_exp ?x 3 (1405026108697841160299585 / 2 ^ 80) \<le> taylor_exp ?x 4 (681322187587771612677285 / 2 ^ 79)"
    by (rule taylor_exp_step_down) simp_all
  have l2: "taylor_exp ?x 2 (1478525167377552594087043 / 2 ^ 80) \<le> taylor_exp ?x 3 (1405026108697841160299585 / 2 ^ 80)"
    by (rule taylor_exp_step_down) simp_all
  have l1: "taylor_exp ?x 1 (1634479570867139077316945 / 2 ^ 80) \<le> taylor_exp ?x 2 (1478525167377552594087043 / 2 ^ 80)"
    by (rule taylor_exp_step_down) simp_all
  have l0: "taylor_exp ?x 0 (1074903946642562046098383 / 2 ^ 79) \<le> taylor_exp ?x 1 (1634479570867139077316945 / 2 ^ 80)"
    by (rule taylor_exp_step_down) simp_all
  have "1074903946642562046098383 / 2 ^ 79 \<le> taylor_exp ?x 18 0"
    using l17 l16 l15 l14 l13 l12 l11 l10 l9 l8 l7 l6 l5 l4 l3 l2 l1 l0 unfolding taylor_exp_0 by linarith
  also have "\<dots> \<le> exp ?x"
    by (rule taylor_exp_le_exp) simp
  finally have e: "1074903946642562046098383 / 2 ^ 79 \<le> exp ?x" .
  have "(1074903946642562046098383 / 2 ^ 79) ^ 8 \<le> exp ?x ^ 8"
    by (rule power_mono [OF e]) simp
  also have "\<dots> = exp (5184960683398422 / 2 ^ 50 :: real)"
    using exp_of_nat_mult [of 8 ?x] by simp
  finally have "(1074903946642562046098383 / 2 ^ 79) ^ 8 \<le> exp (5184960683398422 / 2 ^ 50 :: real)" .
  then have "(1074903946642562046098383 / 2 ^ 79) ^ 8 * (1 - 1 / 2 ^ 52) \<le> exp (5184960683398422 / 2 ^ 50 :: real) * (1 - 1 / 2 ^ 52)"
    by (rule mult_right_mono) simp
  moreover have "100 < (1074903946642562046098383 / 2 ^ 79 :: real) ^ 8 * (1 - 1 / 2 ^ 52)"
    by (simp add: power_divide divide_simps)
  ultimately show ?thesis by linarith
qed

lemma double_on_grid:
  assumes "x = real_of_int n / 2 ^ 50"
  shows "x \<le> 5184960683398421 / 2 ^ 50 \<or> 5184960683398422 / 2 ^ 50 \<le> x"
proof (cases "n \<le> 5184960683398421")
  case True
  then have "real_of_int n \<le> 5184960683398421" by linarith
  then have "x \<le> 5184960683398421 / 2 ^ 50"
    unfolding assms by (intro divide_right_mono) simp_all
  then show ?thesis ..
next
  case False
  then have "5184960683398422 \<le> n" by simp
  then have "5184960683398422 \<le> real_of_int n" by linarith
  then have "5184960683398422 / 2 ^ 50 \<le> x"
    unfolding assms by (intro divide_right_mono) simp_all
  then show ?thesis ..
qed

lemma double_gap:
  assumes "is_double x"
  shows "x \<le> 5184960683398421 / 2 ^ 50 \<or> 5184960683398422 / 2 ^ 50 \<le> x"
proof -
  from assms obtain m :: int and k :: nat where m: "\<bar>m\<bar> < 2 ^ 53"
    and x: "(k \<le> 971 \<and> x = real_of_int m * 2 ^ k) \<or> (k \<le> 1074 \<and> x = real_of_int m / 2 ^ k)"
    unfolding is_double_def by blast
  from x show ?thesis
  proof
    assume "k \<le> 971 \<and> x = real_of_int m * 2 ^ k"
    then have "x = real_of_int (m * 2 ^ k * 2 ^ 50) / 2 ^ 50" by simp
    then show ?thesis by (rule double_on_grid)
  next
    assume a: "k \<le> 1074 \<and> x = real_of_int m / 2 ^ k"
    show ?thesis
    proof (cases "k \<le> 50")
      case True
      then have "(50 - k) + k = 50" by simp
      then have "(2::real) ^ ((50 - k) + k) = 2 ^ 50" by (simp only:)
      then have p: "(2::real) ^ (50 - k) * 2 ^ k = 2 ^ 50" by (simp only: power_add)
      have "x = (real_of_int m * 2 ^ (50 - k)) / (2 ^ (50 - k) * 2 ^ k)"
        using a by simp
      then have "x = real_of_int (m * 2 ^ (50 - k)) / 2 ^ 50"
        by (simp only: p of_int_mult of_int_power of_int_numeral)
      then show ?thesis by (rule double_on_grid)
    next
      case False
      then have "51 \<le> k" by simp
      then have "(2::real) ^ 51 \<le> 2 ^ k" by (intro power_increasing) simp_all
      moreover have "real_of_int m < 2 ^ 53"
      proof -
        from m have "m < 2 ^ 53" by simp
        then show ?thesis using of_int_less_iff [of m "2 ^ 53", where ?'a = real] by simp
      qed
      ultimately have "real_of_int m < 4 * 2 ^ k" by simp
      then have "real_of_int m / 2 ^ k < 4" by (simp add: pos_divide_less_eq)
      then have "x < 4" using a by simp
      then have "x \<le> 5184960683398421 / 2 ^ 50" by simp
      then show ?thesis ..
    qed
  qed
qed

lemma no_roundtrip_at_100:
  assumes d: "is_double L" and e: "\<bar>E - exp L\<bar> \<le> exp L / 2 ^ 52"
  shows "E \<noteq> 100"
proof -
  from double_gap [OF d] show ?thesis
  proof
    assume "L \<le> 5184960683398421 / 2 ^ 50"
    then have "exp L \<le> exp (5184960683398421 / 2 ^ 50)" by simp
    then have "exp L * (1 + 1 / 2 ^ 52) \<le> exp (5184960683398421 / 2 ^ 50) * (1 + 1 / 2 ^ 52)"
      by (rule mult_right_mono) simp
    also have "\<dots> < 100" by (rule exp_below_100)
    finally have "exp L * (1 + 1 / 2 ^ 52) < 100" .
    moreover have "E - exp L \<le> exp L / 2 ^ 52" using e by linarith
    moreover have "exp L * (1 + 1 / 2 ^ 52) = exp L + exp L / 2 ^ 52"
      by (simp add: distrib_left)
    ultimately show ?thesis by linarith
  next
    assume "5184960683398422 / 2 ^ 50 \<le> L"
    then have "exp (5184960683398422 / 2 ^ 50) \<le> exp L" by simp
    then have "exp (5184960683398422 / 2 ^ 50) * (1 - 1 / 2 ^ 52) \<le> exp L * (1 - 1 / 2 ^ 52)"
      by (rule mult_right_mono) simp
    with exp_above_100 have "100 < exp L * (1 - 1 / 2 ^ 52)" by linarith
    moreover have "exp L - E \<le> exp L / 2 ^ 52" using e by linarith
    moreover have "exp L * (1 - 1 / 2 ^ 52) = exp L - exp L / 2 ^ 52"
      by (simp add: right_diff_distrib)
    ultimately show ?thesis by linarith
  qed
qed

subsection \<open>Row 0 of each scheme\<close>

lemma euler_loop_row0:
  "euler_loop self dt Z paths V0 X0 i = Inr (V, X) \<Longrightarrow>
     length V = Suc i \<and> length X = Suc i \<and> V ! 0 = V0 \<and> X ! 0 = X0"
proof (induction i arbitrary: V X)
  case 0
  then show ?case by auto
next
  case (Suc i)
  from Suc.prems obtain V' X' Vn Xn where
    prev: "euler_loop self dt Z paths V0 X0 i = Inr (V', X')"
    and V: "V = V' @ [Vn]" and X: "X = X' @ [Xn]"
    by (auto simp: bind_err_def split: sum.splits prod.splits)
  from Suc.IH [OF prev] show ?case unfolding V X by (simp add: nth_append)
qed

lemma qe_loop_row0:
  "qe_loop self dt K0 K1 K2 K3 C1 C2 C3 Z U paths V0 S0 i = (V, S) \<Longrightarrow>
     length V = Suc i \<and> length S = Suc i \<and> V ! 0 = V0 \<and> S ! 0 = S0"
proof (induction i arbitrary: V S)
  case 0
  then show ?case by auto
next
  case (Suc i)
  obtain V' S' where prev: "qe_loop self dt K0 K1 K2 K3 C1 C2 C3 Z U paths V0 S0 i = (V', S')"
    by (cases "qe_loop self dt K0 K1 K2 K3 C1 C2 C3 Z U paths V0 S0 i")
  with Suc.prems obtain Vn Sn where V: "V = V' @ [Vn]" and S: "S = S' @ [Sn]"
    by (auto split: prod.splits)
  from Suc.IH [OF prev] show ?case unfolding V S by (simp add: nth_append)
qed

lemma exact_loop_row0:
  "exact_loop iv deriv brentq ncx2_rvs Z U self dt df nc te sts paths V0 S0 i = Inr (V, S) \<Longrightarrow>
     length V = Suc i \<and> length S = Suc i \<and> V ! 0 = V0 \<and> S ! 0 = S0"
proof (induction i arbitrary: V S)
  case 0
  then show ?case by auto
next
  case (Suc i)
  from Suc.prems obtain V' S' Vn Sn where
    prev: "exact_loop iv deriv brentq ncx2_rvs Z U self dt df nc te sts paths V0 S0 i
             = Inr (V', S')"
    and V: "V = V' @ [Vn]" and S: "S = S' @ [Sn]"
    by (auto simp: bind_err_def split: sum.splits prod.splits)
  from Suc.IH [OF prev] show ?case unfolding V S by (simp add: nth_append)
qed

lemma simulate_euler_row0:
  assumes res: "simulate_euler flog fexp Z self t steps paths return_v = Inr (S, Vo)"
    and j: "j < paths"
  shows "S ! 0 ! j = fexp (flog (s self)) \<and> (\<forall>V. Vo = Some V \<longrightarrow> V ! 0 ! j = v self)"
proof -
  from res obtain dt V X where
    loop: "euler_loop self dt Z paths (replicate paths (v self))
             (replicate paths (flog (s self))) steps = Inr (V, X)"
    and S: "S = map (map fexp) X" and Vo: "Vo = (if return_v then Some V else None)"
    unfolding simulate_euler_def
    by (auto simp: bind_err_def Let_def split: sum.splits prod.splits if_splits)
  from euler_loop_row0 [OF loop] have "length X = Suc steps"
    and "V ! 0 = replicate paths (v self)" and "X ! 0 = replicate paths (flog (s self))"
    by simp_all
  then show ?thesis using j unfolding S Vo by simp
qed

lemma simulate_qe_row0:
  assumes res: "simulate_qe Z U self t steps paths return_v = Inr (S, Vo)"
    and j: "j < paths"
  shows "S ! 0 ! j = s self \<and> (\<forall>V. Vo = Some V \<longrightarrow> V ! 0 ! j = v self)"
proof -
  from res obtain dt K0 K1 K2 K3 C1 C2 C3 V where
    loop: "qe_loop self dt K0 K1 K2 K3 C1 C2 C3 Z U paths (replicate paths (v self))
             (replicate paths (s self)) steps = (V, S)"
    and Vo: "Vo = (if return_v then Some V else None)"
    unfolding simulate_qe_def
    by (auto simp: bind_err_def Let_def split: sum.splits prod.splits if_splits)
  from qe_loop_row0 [OF loop] have "V ! 0 = replicate paths (v self)"
    and "S ! 0 = replicate paths (s self)"
    by simp_all
  then show ?thesis using j unfolding Vo by simp
qed

lemma simulate_exact_row0:
  assumes res: "simulate_exact iv deriv brentq ncx2_rvs Z uniform_rvs self t steps paths
                  te sts return_v = Inr (S, Vo)"
    and j: "j < paths"
  shows "S ! 0 ! j = s self \<and> (\<forall>V. Vo = Some V \<longrightarrow> V ! 0 ! j = v self)"
proof -
  from res obtain dt df nc V where
    loop: "exact_loop iv deriv brentq ncx2_rvs Z (exact_U uniform_rvs) self dt df nc te sts
             paths (replicate paths (v self)) (replicate paths (s self)) steps = Inr (V, S)"
    and Vo: "Vo = (if return_v then Some V else None)"
    unfolding simulate_exact_def
    by (auto simp: bind_err_def split: sum.splits prod.splits if_splits)
  from exact_loop_row0 [OF loop] have "V ! 0 = replicate paths (v self)"
    and "S ! 0 = replicate paths (s self)"
    by simp_all
  then show ?thesis using j unfolding Vo by simp
qed

lemma euler_returns:
  "\<exists>S V. simulate_euler flog fexp (\<lambda>c i j. 0)
      \<lparr>s = 100, v = 0.04, kappa = 2, theta = 0.04, sigma = 0.3, rho = - 0.7, r = 0\<rparr> 1 1 1
      return_v = Inr (S, V)"
  by (simp add: simulate_euler_def fdiv_def bind_err_def euler_step_def math_sqrt_def Let_def
      power2_eq_square)

lemma double_ln_100: "is_double (5184960683398422 / 2 ^ 50)"
proof -
  have "\<bar>5184960683398422 :: int\<bar> < 2 ^ 53 \<and>
        (((50::nat) \<le> 971 \<and> (5184960683398422 / 2 ^ 50 :: real)
             = real_of_int 5184960683398422 * 2 ^ (50::nat)) \<or>
         ((50::nat) \<le> 1074 \<and> (5184960683398422 / 2 ^ 50 :: real)
             = real_of_int 5184960683398422 / 2 ^ (50::nat)))"
    by simp
  then show ?thesis unfolding is_double_def by blast
qed

lemma double_libm_example: "double_libm (\<lambda>x. 5184960683398422 / 2 ^ 50) exp"
  using double_ln_100 by (simp add: double_libm_def)

lemma simulate_euler_row0_exact_arithmetic:
  assumes res: "simulate_euler ln exp Z self t steps paths return_v = Inr (S, Vo)"
    and j: "j < paths"
  shows "S ! 0 ! j = s self"
proof -
  have "0 < s self"
    using res unfolding simulate_euler_def
    by (auto simp: bind_err_def split: sum.splits if_splits)
  moreover have "S ! 0 ! j = exp (ln (s self))"
    using simulate_euler_row0 [OF res j] by simp
  ultimately show ?thesis by simp
qed

lemma euler_returns_v:
  "\<exists>S V. simulate_euler flog fexp (\<lambda>c i j. 0)
      \<lparr>s = 100, v = 0, kappa = 2, theta = 0.04, sigma = 0.3, rho = - 0.7, r = 0\<rparr> 1 1 1
      True = Inr (S, Some V)"
  by (simp add: simulate_euler_def fdiv_def bind_err_def euler_step_def math_sqrt_def Let_def
      power2_eq_square)

text \<open>
  C2, as the specification states it: for every scheme the returned price grid has
  \<open>S[0, j] = s\<close> exactly. For Euler's scheme it has not. Row \<open>0\<close> of its price grid is
  \<^verbatim>\<open>np.exp(math.log(s))\<close>, and at \<open>s = 100\<close> no double \<open>L\<close> has an exponential within the
  relative error \<open>2\<^sup>-\<^sup>5\<^sup>2\<close> of \<open>100\<close>: the two doubles next to \<open>ln 100\<close> are
  \<open>5184960683398421 / 2\<^sup>5\<^sup>0\<close> and \<open>5184960683398422 / 2\<^sup>5\<^sup>0\<close>, and their exponentials are
  \<open>100 (1 - 4.5e-16)\<close> and \<open>100 (1 + 4.3e-16)\<close>. So with the model of the specification's own
  scenario, one step and one path, there is no logarithm returning doubles and no
  exponential of that accuracy for which \<open>S[0, 0]\<close> is \<open>100\<close>, and the simulator does
  return a grid. (CPython gives \<^verbatim>\<open>math.exp(math.log(100.0)) = 100.00000000000004\<close>.)
\<close>

theorem euler_initial_price_counterexample:
  "\<not> (\<exists>flog fexp S Vo. double_libm flog fexp \<and>
        simulate_euler flog fexp (\<lambda>c i j. 0)
          \<lparr>s = 100, v = 0.04, kappa = 2, theta = 0.04, sigma = 0.3, rho = - 0.7, r = 0\<rparr>
          1 1 1 False = Inr (S, Vo) \<and>
        S ! 0 ! 0 = 100) \<and>
   (\<exists>flog fexp S Vo. double_libm flog fexp \<and>
        simulate_euler flog fexp (\<lambda>c i j. 0)
          \<lparr>s = 100, v = 0.04, kappa = 2, theta = 0.04, sigma = 0.3, rho = - 0.7, r = 0\<rparr>
          1 1 1 False = Inr (S, Vo))"
proof
  let ?self = "\<lparr>s = 100, v = 0.04, kappa = 2, theta = 0.04, sigma = 0.3, rho = - 0.7, r = 0\<rparr>"
  show "\<not> (\<exists>flog fexp S Vo. double_libm flog fexp \<and>
        simulate_euler flog fexp (\<lambda>c i j. 0) ?self 1 1 1 False = Inr (S, Vo) \<and>
        S ! 0 ! 0 = 100)"
  proof
    assume "\<exists>flog fexp S Vo. double_libm flog fexp \<and>
        simulate_euler flog fexp (\<lambda>c i j. 0) ?self 1 1 1 False = Inr (S, Vo) \<and>
        S ! 0 ! 0 = 100"
    then obtain flog fexp S Vo where lm: "double_libm flog fexp"
      and res: "simulate_euler flog fexp (\<lambda>c i j. 0) ?self 1 1 1 False = Inr (S, Vo)"
      and eq: "S ! 0 ! 0 = 100"
      by blast
    from simulate_euler_row0 [OF res, of 0] have "S ! 0 ! 0 = fexp (flog 100)" by simp
    with eq have "fexp (flog 100) = 100" by simp
    moreover from lm have "is_double (flog 100)"
      and "\<bar>fexp (flog 100) - exp (flog 100)\<bar> \<le> exp (flog 100) / 2 ^ 52"
      by (simp_all add: double_libm_def)
    then have "fexp (flog 100) \<noteq> 100" by (rule no_roundtrip_at_100)
    ultimately show False by simp
  qed
  show "\<exists>flog fexp S Vo. double_libm flog fexp \<and>
        simulate_euler flog fexp (\<lambda>c i j. 0) ?self 1 1 1 False = Inr (S, Vo)"
    using double_libm_example euler_returns [of "\<lambda>x. 5184960683398422 / 2 ^ 50" exp False]
    by blast
qed

text \<open>
  C2, amended: for every horizon, every \<open>steps \<ge> 1\<close> and every path count, whenever a
  simulator returns, the QE and the exact scheme have \<open>S[0, j] = s\<close> exactly, all three
  schemes have \<open>V[0, j] = v\<close> exactly where the variance grid is returned, and Euler's
  scheme has \<open>S[0, j] = exp (log s)\<close>, the initial price sent through \<^verbatim>\<open>math.log\<close> and
  \<^verbatim>\<open>np.exp\<close>: equal to \<open>s\<close> in exact arithmetic (lemma
  \<open>simulate_euler_row0_exact_arithmetic\<close>), and only up to the rounding of the two
  functions on doubles.
\<close>

theorem initial_rows:
  "(\<forall>S Vo. simulate_euler flog fexp Z self t steps paths return_v = Inr (S, Vo) \<longrightarrow>
      (\<forall>j<paths. S ! 0 ! j = fexp (flog (s self)) \<and>
                 (\<forall>V. Vo = Some V \<longrightarrow> V ! 0 ! j = v self))) \<and>
   (\<forall>S Vo. simulate_qe Z U self t steps paths return_v = Inr (S, Vo) \<longrightarrow>
      (\<forall>j<paths. S ! 0 ! j = s self \<and> (\<forall>V. Vo = Some V \<longrightarrow> V ! 0 ! j = v self))) \<and>
   (\<forall>S Vo. simulate_exact iv deriv brentq ncx2_rvs Z' uniform_rvs self t steps paths
              truncation_error small_tail_stddev return_v = Inr (S, Vo) \<longrightarrow>
      (\<forall>j<paths. S ! 0 ! j = s self \<and> (\<forall>V. Vo = Some V \<longrightarrow> V ! 0 ! j = v self)))"
proof (intro conjI)
  show "\<forall>S Vo. simulate_euler flog fexp Z self t steps paths return_v = Inr (S, Vo) \<longrightarrow>
      (\<forall>j<paths. S ! 0 ! j = fexp (flog (s self)) \<and>
                 (\<forall>V. Vo = Some V \<longrightarrow> V ! 0 ! j = v self))"
    by (intro allI impI) (erule simulate_euler_row0, assumption)
  show "\<forall>S Vo. simulate_qe Z U self t steps paths return_v = Inr (S, Vo) \<longrightarrow>
      (\<forall>j<paths. S ! 0 ! j = s self \<and> (\<forall>V. Vo = Some V \<longrightarrow> V ! 0 ! j = v self))"
    by (intro allI impI) (erule simulate_qe_row0, assumption)
  show "\<forall>S Vo. simulate_exact iv deriv brentq ncx2_rvs Z' uniform_rvs self t steps paths
              truncation_error small_tail_stddev return_v = Inr (S, Vo) \<longrightarrow>
      (\<forall>j<paths. S ! 0 ! j = s self \<and> (\<forall>V. Vo = Some V \<longrightarrow> V ! 0 ! j = v self))"
    by (intro allI impI) (erule simulate_exact_row0, assumption)
qed

theorem initial_rows_witness:
  "(\<exists>S V. simulate_euler ln exp (\<lambda>c i j. 0)
       \<lparr>s = 100, v = 0, kappa = 2, theta = 0.04, sigma = 0.3, rho = - 0.7, r = 0\<rparr> 1 1 1 True
      = Inr (S, Some V) \<and> S ! 0 ! 0 = exp (ln 100) \<and> V ! 0 ! 0 = 0) \<and>
   (\<exists>S V. simulate_qe (\<lambda>c i j. 0) (\<lambda>i j. 1/2)
       \<lparr>s = 100, v = 0, kappa = 2, theta = 0.04, sigma = 0.3, rho = - 0.7, r = 0\<rparr> 1 1 1 True
      = Inr (S, Some V) \<and> S ! 0 ! 0 = 100 \<and> V ! 0 ! 0 = 0) \<and>
   (\<exists>S V. simulate_exact (\<lambda>nu z. 1) (\<lambda>f x0 dx n. Inr 0) (\<lambda>f a b. Inr a) (\<lambda>i j df nc. 0)
       (\<lambda>i j. 0) (\<lambda>i j. 1/2)
       \<lparr>s = 100, v = 0, kappa = 2, theta = 0.04, sigma = 0.3, rho = - 0.7, r = 0\<rparr> 1 1 1
       (1/100000) 5 True
      = Inr (S, Some V) \<and> S ! 0 ! 0 = 100 \<and> V ! 0 ! 0 = 0)"
proof -
  let ?self = "\<lparr>s = 100, v = 0, kappa = 2, theta = 0.04, sigma = 0.3, rho = - 0.7, r = 0\<rparr>"
  note rows = initial_rows [of ln exp "\<lambda>c i j. 0" ?self 1 1 1 True "\<lambda>i j. 1/2" "\<lambda>nu z. 1"
      "\<lambda>f x0 dx n. Inr 0" "\<lambda>f a b. Inr a" "\<lambda>i j df nc. 0" "\<lambda>i j. 0" "\<lambda>i j. 1/2"
      "1/100000" 5]
  from euler_returns_v [of ln exp] obtain S1 V1 where
    r1: "simulate_euler ln exp (\<lambda>c i j. 0) ?self 1 1 1 True = Inr (S1, Some V1)" by blast
  from qe_returns obtain S2 V2 where
    r2: "simulate_qe (\<lambda>c i j. 0) (\<lambda>i j. 1/2) ?self 1 1 1 True = Inr (S2, Some V2)" by blast
  from exact_returns obtain S3 V3 where
    r3: "simulate_exact (\<lambda>nu z. 1) (\<lambda>f x0 dx n. Inr 0) (\<lambda>f a b. Inr a) (\<lambda>i j df nc. 0)
          (\<lambda>i j. 0) (\<lambda>i j. 1/2) ?self 1 1 1 (1/100000) 5 True = Inr (S3, Some V3)" by blast
  from rows [THEN conjunct1, THEN spec, THEN spec, THEN mp, OF r1]
  have "S1 ! 0 ! 0 = exp (ln 100) \<and> V1 ! 0 ! 0 = 0" by simp
  moreover from rows [THEN conjunct2, THEN conjunct1, THEN spec, THEN spec, THEN mp, OF r2]
  have "S2 ! 0 ! 0 = 100 \<and> V2 ! 0 ! 0 = 0" by simp
  moreover from rows [THEN conjunct2, THEN conjunct2, THEN spec, THEN spec, THEN mp, OF r3]
  have "S3 ! 0 ! 0 = 100 \<and> V3 ! 0 ! 0 = 0" by simp
  ultimately show ?thesis using r1 r2 r3 by blast
qed

end
